theory Spec2Isabelle
  imports Complex_Main
begin

section \<open>JavaScript values\<close>

text \<open>
  The proxy reads its request body as parsed JSON. A field that is absent from the body
  reads as \<open>undefined\<close>. Numbers are the values of the parsed literals (JSON has no NaN).
\<close>

datatype json =
    JUndefined
  | JNull
  | JBool bool
  | JNum rat
  | JStr string
  | JArr "json list"
  | JObj "(string \<times> json) list"

text \<open>JavaScript truthiness, as used by \<open>!x\<close>, \<open>x || y\<close> and \<open>if (x)\<close>.\<close>

fun truthy :: "json \<Rightarrow> bool" where
  "truthy JUndefined = False"
| "truthy JNull = False"
| "truthy (JBool b) = b"
| "truthy (JNum n) = (n \<noteq> 0)"
| "truthy (JStr s) = (s \<noteq> [])"
| "truthy (JArr xs) = True"
| "truthy (JObj kvs) = True"

text \<open>A destructuring default \<open>{ x = d } = obj\<close> applies only when the field is \<open>undefined\<close>.\<close>

definition dflt :: "json \<Rightarrow> json \<Rightarrow> json" where
  "dflt d v = (if v = JUndefined then d else v)"

section \<open>The proxy: POST /api/img2video\<close>

text \<open>The fields that the handler destructures from \<open>req.body\<close>.\<close>

record img2video_body =
  b_images :: json
  b_prompt :: json
  b_model :: json
  b_duration :: json
  b_seed :: json
  b_resolution :: json
  b_movement_amplitude :: json
  b_bgm :: json
  b_payload :: json
  b_callback_url :: json

text \<open>
  \<open>requestData\<close>, the object posted to the remote API. The five fields of the object
  literal are always present; the optional ones are keys that may be missing (\<open>None\<close>).
\<close>

record requestData =
  rd_model :: json
  rd_images :: json
  rd_duration :: json
  rd_movement_amplitude :: json
  rd_bgm :: json
  rd_prompt :: "json option"
  rd_seed :: "json option"
  rd_resolution :: "json option"
  rd_payload :: "json option"
  rd_callback_url :: "json option"

text \<open>The error envelope \<open>res.status(n).json({error, message})\<close>.\<close>

record http_error =
  he_status :: nat
  he_error :: string
  he_message :: string

definition validModels :: "json list" where
  "validModels = [JStr ''viduq1'', JStr ''vidu2.0'', JStr ''vidu1.5'']"

text \<open>\<open>let finalDuration = duration; if (!finalDuration) finalDuration = model === 'viduq1' ? 5 : 4\<close>\<close>

definition finalDuration :: "json \<Rightarrow> json \<Rightarrow> json" where
  "finalDuration model duration =
     (if \<not> truthy duration then (if model = JStr ''viduq1'' then JNum 5 else JNum 4)
      else duration)"

text \<open>
  The resolution default. \<open>===\<close> is strict: \<open>finalDuration === 4\<close> holds for the number 4
  only. When no branch assigns, \<open>finalResolution\<close> keeps the (falsy) value it had.
\<close>

definition finalResolution :: "json \<Rightarrow> json \<Rightarrow> json \<Rightarrow> json" where
  "finalResolution model fd resolution =
     (if \<not> truthy resolution then
        (if model = JStr ''viduq1'' then JStr ''1080p''
         else if fd = JNum 4 then JStr ''360p''
         else if fd = JNum 8 then JStr ''720p''
         else resolution)
      else resolution)"

text \<open>\<open>if (x) requestData.k = x\<close>\<close>

definition if_truthy :: "json \<Rightarrow> json option" where
  "if_truthy v = (if truthy v then Some v else None)"

text \<open>
  The handler up to the call of the remote API: either the error envelope it answers
  with, or the request it forwards. \<open>apiKey\<close> is the environment variable, \<open>None\<close> when
  it is not set.
\<close>

definition img2video :: "string option \<Rightarrow> img2video_body \<Rightarrow> http_error + requestData" where
  "img2video apiKey body =
     (if apiKey = None \<or> apiKey = Some [] then
        Inl \<lparr>he_status = 500, he_error = ''API key not configured'',
             he_message = ''VITE_VIDU_API_KEY environment variable is not set''\<rparr>
      else
        let images = b_images body;
            model = dflt (JStr ''viduq1'') (b_model body);
            movement_amplitude = dflt (JStr ''auto'') (b_movement_amplitude body);
            bgm = dflt (JBool False) (b_bgm body)
        in case images of
             JArr xs \<Rightarrow>
               if xs = [] then
                 Inl \<lparr>he_status = 400, he_error = ''Validation Error'',
                      he_message = ''images field is required and must be a non-empty array''\<rparr>
               else if length xs > 1 then
                 Inl \<lparr>he_status = 400, he_error = ''Validation Error'',
                      he_message = ''Only 1 image is accepted''\<rparr>
               else if model \<notin> set validModels then
                 Inl \<lparr>he_status = 400, he_error = ''Validation Error'',
                      he_message = ''Invalid model. Accepted values: viduq1, vidu2.0, vidu1.5''\<rparr>
               else
                 let fd = finalDuration model (b_duration body);
                     fr = finalResolution model fd (b_resolution body)
                 in Inr \<lparr>rd_model = model, rd_images = images, rd_duration = fd,
                         rd_movement_amplitude = movement_amplitude, rd_bgm = bgm,
                         rd_prompt = if_truthy (b_prompt body),
                         rd_seed = (if b_seed body \<noteq> JUndefined then Some (b_seed body) else None),
                         rd_resolution = if_truthy fr,
                         rd_payload = if_truthy (b_payload body),
                         rd_callback_url = if_truthy (b_callback_url body)\<rparr>
           | _ \<Rightarrow>
               Inl \<lparr>he_status = 400, he_error = ''Validation Error'',
                    he_message = ''images field is required and must be a non-empty array''\<rparr>)"

section \<open>Strings and numbers of the browser client\<close>

text \<open>
  A JavaScript string is represented by the bytes of its UTF-8 encoding, so an ASCII
  character is one \<open>char\<close> and any other code point is a sequence of two to four.

  \<open>String.prototype.trim\<close> removes white space and line terminators from both ends:
  TAB, LF, VT, FF, CR, SPACE, U+00A0, U+1680, U+2000 to U+200A, U+2028, U+2029, U+202F,
  U+205F, U+3000 and U+FEFF. \<open>whiteSpace\<close> lists their encodings.
\<close>

definition whiteSpace :: "string list" where
  "whiteSpace =
     [[CHR 0x09], [CHR 0x0A], [CHR 0x0B], [CHR 0x0C], [CHR 0x0D], [CHR 0x20],
      [CHR 0xC2, CHR 0xA0],
      [CHR 0xE1, CHR 0x9A, CHR 0x80],
      [CHR 0xE2, CHR 0x80, CHR 0x80], [CHR 0xE2, CHR 0x80, CHR 0x81],
      [CHR 0xE2, CHR 0x80, CHR 0x82], [CHR 0xE2, CHR 0x80, CHR 0x83],
      [CHR 0xE2, CHR 0x80, CHR 0x84], [CHR 0xE2, CHR 0x80, CHR 0x85],
      [CHR 0xE2, CHR 0x80, CHR 0x86], [CHR 0xE2, CHR 0x80, CHR 0x87],
      [CHR 0xE2, CHR 0x80, CHR 0x88], [CHR 0xE2, CHR 0x80, CHR 0x89],
      [CHR 0xE2, CHR 0x80, CHR 0x8A],
      [CHR 0xE2, CHR 0x80, CHR 0xA8], [CHR 0xE2, CHR 0x80, CHR 0xA9],
      [CHR 0xE2, CHR 0x80, CHR 0xAF],
      [CHR 0xE2, CHR 0x81, CHR 0x9F],
      [CHR 0xE3, CHR 0x80, CHR 0x80],
      [CHR 0xEF, CHR 0xBB, CHR 0xBF]]"

definition starts_with :: "string \<Rightarrow> string \<Rightarrow> bool" where
  "starts_with s p = (take (length p) s = p)"

text \<open>
  \<open>strip ps s\<close> removes from the front of \<open>s\<close>, as long as there is one, a sequence of
  \<open>ps\<close>. (No sequence of \<open>whiteSpace\<close> is empty; the test for it makes the function total.)
\<close>

function strip :: "string list \<Rightarrow> string \<Rightarrow> string" where
  "strip ps s =
     (case find (starts_with s) ps of
        Some p \<Rightarrow> (if p = [] then s else strip ps (drop (length p) s))
      | None \<Rightarrow> s)"
  by pat_completeness auto
termination
proof (relation "measure (\<lambda>(ps, s). length s)")
  show "wf (measure (\<lambda>(ps, s). length s))"
    by simp
next
  fix ps :: "string list" and s p :: string
  assume "find (starts_with s) ps = Some p" and "p \<noteq> []"
  then have "take (length p) s = p" and "0 < length p"
    by (auto simp: find_Some_iff starts_with_def)
  then have "length (take (length p) s) = length p"
    by simp
  then have "length p \<le> length s"
    by simp
  with \<open>0 < length p\<close> have "length s - length p < length s"
    by arith
  then show "((ps, drop (length p) s), (ps, s)) \<in> measure (\<lambda>(ps, s). length s)"
    by simp
qed

declare strip.simps [simp del]

text \<open>
  In UTF-8 the last bytes of a string are an encoding of \<open>whiteSpace\<close> exactly when the
  last code point is that one, so the end is trimmed on the reversed bytes.
\<close>

definition trimStart :: "string \<Rightarrow> string" where
  "trimStart s = strip whiteSpace s"

definition trimEnd :: "string \<Rightarrow> string" where
  "trimEnd s = rev (strip (map rev whiteSpace) (rev s))"

definition trim :: "string \<Rightarrow> string" where
  "trim s = trimEnd (trimStart s)"

text \<open>
  \<open>toLowerCase\<close> maps the ASCII capitals. The component applies it to an error message
  only to search the result for one of the words \<open>not found\<close>, \<open>unauthorized\<close>, \<open>401\<close> and
  \<open>timeout\<close>. Outside ASCII only U+212A (to \<open>k\<close>) and U+0130 (to \<open>i\<close> followed by U+0307)
  lower-case to a text with an ASCII character; no word has a \<open>k\<close> or ends with
  \<open>i\<close>, so the searches find the same.
\<close>

definition toLowerCase :: "string \<Rightarrow> string" where
  "toLowerCase s =
     map (\<lambda>c. let n = (of_char c :: nat) in if 65 \<le> n \<and> n \<le> 90 then char_of (n + 32) else c) s"

fun str_includes :: "string \<Rightarrow> string \<Rightarrow> bool" where
  "str_includes [] p = (p = [])"
| "str_includes (c # cs) p = (take (length p) (c # cs) = p \<or> str_includes cs p)"

text \<open>
  \<open>imageDuration\<close> is a number state that holds 5, 4, or the result of \<open>parseInt\<close>:
  an integer or NaN.
\<close>

datatype number = Num int | NaN

fun num_truthy :: "number \<Rightarrow> bool" where
  "num_truthy (Num n) = (n \<noteq> 0)"
| "num_truthy NaN = False"

fun digits :: "nat \<Rightarrow> string" where
  "digits n = (if n < 10 then [char_of (48 + n)] else digits (n div 10) @ [char_of (48 + n mod 10)])"

declare digits.simps [simp del]

text \<open>\<open>Number.prototype.toString\<close> on an integer (decimal digits, below \<open>10^21\<close>) and on NaN.\<close>

fun toString :: "number \<Rightarrow> string" where
  "toString (Num n) = (if n < 0 then CHR ''-'' # digits (nat (- n)) else digits (nat n))"
| "toString NaN = ''NaN''"

section \<open>The data of the job tracker\<close>

text \<open>A value caught by \<open>catch (err)\<close>: an \<open>Error\<close> with its message, or anything else.\<close>

datatype thrown = Error string | NonError

record ViduTaskCreation =
  c_id :: string
  c_url :: string
  c_cover_url :: string

text \<open>
  The answer of \<open>GET /tasks/:taskId/creations\<close>. A field that may be missing is an
  option; \<open>str_truthy\<close> and \<open>has_creations\<close> are the tests the component applies.
\<close>

record ViduTaskCreationsResponse =
  r_state :: string
  r_err_code :: "string option"
  r_credits :: int
  r_payload :: "string option"
  r_creations :: "ViduTaskCreation list option"

fun str_truthy :: "string option \<Rightarrow> bool" where
  "str_truthy None = False"
| "str_truthy (Some s) = (s \<noteq> [])"

text \<open>\<open>a || b\<close> on an optional string with a string fallback.\<close>

definition str_or :: "string option \<Rightarrow> string \<Rightarrow> string" where
  "str_or a b = (if str_truthy a then the a else b)"

text \<open>\<open>response.creations && response.creations.length > 0\<close>\<close>

fun has_creations :: "ViduTaskCreation list option \<Rightarrow> bool" where
  "has_creations None = False"
| "has_creations (Some cs) = (cs \<noteq> [])"

text \<open>
  A history entry. Its fields are those of the object literal \<open>mockResponse\<close>; only
  \<open>task_id\<close> is tested by the component, and a creation response may lack it.
\<close>

record ViduVideoResponse =
  v_task_id :: "string option"
  v_state :: string
  v_status :: string
  v_created_at :: string
  v_updated_at :: string
  v_prompt :: string
  v_model :: string
  v_style :: string
  v_duration :: int
  v_aspect_ratio :: string
  v_resolution :: string
  v_movement_amplitude :: string

datatype upload_method = File | Url

datatype image_model = Viduq1 | Vidu2_0 | Vidu1_5

fun model_name :: "image_model \<Rightarrow> string" where
  "model_name Viduq1 = ''viduq1''"
| "model_name Vidu2_0 = ''vidu2.0''"
| "model_name Vidu1_5 = ''vidu1.5''"

datatype tab = Generate | Image | Lookup

text \<open>The React state of the component \<open>VideoGenerator\<close>, one field for each \<open>useState\<close>.\<close>

record tracker =
  prompt :: string
  imagePrompt :: string
  imageFile :: "string option"
  imageUrl :: string
  uploadMethod :: upload_method
  imageModel :: image_model
  imageDuration :: number
  imageBgm :: bool
  taskIdInput :: string
  isGenerating :: bool
  isGeneratingFromImage :: bool
  isLookingUp :: bool
  videoHistory :: "ViduVideoResponse list"
  currentTaskResponse :: "ViduVideoResponse option"
  taskCreationsResponse :: "ViduTaskCreationsResponse option"
  error :: "string option"
  isPolling :: bool
  activeTab :: tab

definition initial_tracker :: tracker where
  "initial_tracker =
     \<lparr>prompt = [], imagePrompt = [], imageFile = None, imageUrl = [], uploadMethod = Url,
      imageModel = Viduq1, imageDuration = Num 5, imageBgm = False, taskIdInput = [],
      isGenerating = False, isGeneratingFromImage = False, isLookingUp = False,
      videoHistory = [], currentTaskResponse = None, taskCreationsResponse = None,
      error = None, isPolling = False, activeTab = Generate\<rparr>"

text \<open>
  The timers of the browser. \<open>setInterval\<close> and \<open>setTimeout\<close> hand out fresh handles from
  one table. An entry is the callback registered by \<open>pollTaskCreations\<close>: the interval
  with its delay and the task it polls; the timeout with its delay, the interval handle
  it clears, and the \<open>taskCreationsResponse\<close> of the render whose closure it was created in.
\<close>

datatype timer =
    PollInterval nat string
  | PollTimeout nat nat "ViduTaskCreationsResponse option"

record world =
  ui :: tracker
  timers :: "nat \<rightharpoonup> timer"
  next_handle :: nat

definition initial_world :: world where
  "initial_world = \<lparr>ui = initial_tracker, timers = Map.empty, next_handle = 0\<rparr>"

definition register :: "timer \<Rightarrow> world \<Rightarrow> world" where
  "register t w = w\<lparr>timers := (timers w)(next_handle w \<mapsto> t), next_handle := Suc (next_handle w)\<rparr>"

text \<open>\<open>clearInterval(h)\<close>; clearing a handle that is not in the table does nothing.\<close>

definition clearInterval :: "nat \<Rightarrow> world \<Rightarrow> world" where
  "clearInterval h w = w\<lparr>timers := (timers w)(h := None)\<rparr>"

text \<open>The requests the client sends to the proxy.\<close>

record text2video_body =
  t_prompt :: string
  t_model :: string
  t_duration :: string
  t_aspect_ratio :: string
  t_style :: string
  t_seed :: string
  t_resolution :: string
  t_movement_amplitude :: string

datatype request =
    PostText2video text2video_body
  | PostImg2video img2video_body
  | GetTaskCreations string

section \<open>The job tracker\<close>

text \<open>
  Every handler of the component is a closure of one render: it reads the state
  variables of that render (the snapshot \<open>r\<close>) and writes through the setters. A handler
  that awaits is split at the \<open>await\<close>: the part before it returns the request it sends,
  the part after it takes the snapshot \<open>r\<close> of the render the handler belongs to and the
  outcome of the request, \<open>Inl\<close> what was thrown or \<open>Inr\<close> the answer.
\<close>

definition setUi :: "(tracker \<Rightarrow> tracker) \<Rightarrow> world \<Rightarrow> world" where
  "setUi f w = w\<lparr>ui := f (ui w)\<rparr>"

subsection \<open>pollTaskCreations\<close>

text \<open>
  \<open>setInterval(..., 5000)\<close>, then \<open>setTimeout(..., 600000)\<close>. Neither handle leaves the
  function, and the timeout's handle is not kept at all.
\<close>

definition pollTaskCreations :: "tracker \<Rightarrow> string \<Rightarrow> world \<Rightarrow> world" where
  "pollTaskCreations r taskId w =
     (let pollInterval = next_handle w;
          w1 = register (PollInterval 5000 taskId) w
      in register (PollTimeout 600000 pollInterval (taskCreationsResponse r)) w1)"

text \<open>
  The interval callback up to its \<open>await\<close>: the status request it sends, when the
  handle is a registered interval.
\<close>

definition pollInterval_fire :: "nat \<Rightarrow> world \<Rightarrow> request option" where
  "pollInterval_fire h w =
     (case timers w h of
        Some (PollInterval d taskId) \<Rightarrow> Some (GetTaskCreations taskId)
      | _ \<Rightarrow> None)"

text \<open>The interval callback after its \<open>await\<close>, for the interval with handle \<open>pollInterval\<close>.\<close>

definition pollInterval_resume ::
  "nat \<Rightarrow> thrown + ViduTaskCreationsResponse \<Rightarrow> world \<Rightarrow> world" where
  "pollInterval_resume pollInterval res w =
     (case res of
        Inr response \<Rightarrow>
          let w1 = setUi (\<lambda>u. u\<lparr>taskCreationsResponse := Some response\<rparr>) w
          in if r_state response = ''success'' \<and> has_creations (r_creations response) then
               setUi (\<lambda>u. u\<lparr>isPolling := False\<rparr>) (clearInterval pollInterval w1)
             else if r_state response = ''error'' \<or> str_truthy (r_err_code response) then
               setUi (\<lambda>u. u\<lparr>isPolling := False,
                             error := Some (str_or (r_err_code response) ''Video generation failed'')\<rparr>)
                 (clearInterval pollInterval w1)
             else w1
      | Inl err \<Rightarrow>
          setUi (\<lambda>u. u\<lparr>isPolling := False,
                        error := Some (case err of Error m \<Rightarrow> m
                                       | NonError \<Rightarrow> ''Failed to check video status'')\<rparr>)
            (clearInterval pollInterval w))"

text \<open>
  The timeout callback: \<open>None\<close> when the handle is not a registered timeout. A timeout
  runs once and leaves the table. \<open>!taskCreationsResponse?.creations?.length\<close> reads the
  variable of the closure.
\<close>

definition no_creations :: "ViduTaskCreationsResponse option \<Rightarrow> bool" where
  "no_creations t = (case t of None \<Rightarrow> True | Some resp \<Rightarrow> \<not> has_creations (r_creations resp))"

definition pollTimeout_fire :: "nat \<Rightarrow> world \<Rightarrow> world option" where
  "pollTimeout_fire h w =
     (case timers w h of
        Some (PollTimeout d pollInterval captured) \<Rightarrow>
          let w1 = clearInterval pollInterval (w\<lparr>timers := (timers w)(h := None)\<rparr>);
              w2 = setUi (\<lambda>u. u\<lparr>isPolling := False\<rparr>) w1
          in Some (if no_creations captured then
                     setUi (\<lambda>u. u\<lparr>error := Some ''Video generation timed out. Please try again.''\<rparr>) w2
                   else w2)
      | _ \<Rightarrow> None)"

subsection \<open>handleSubmit\<close>

definition handleSubmit_start :: "world \<Rightarrow> request option \<times> world" where
  "handleSubmit_start w =
     (let r = ui w in
      if trim (prompt r) = [] \<or> isGenerating r then (None, w)
      else
        (Some (PostText2video
           \<lparr>t_prompt = trim (prompt r), t_model = ''viduq1'', t_duration = ''5'',
            t_aspect_ratio = ''16:9'', t_style = ''general'', t_seed = ''0'',
            t_resolution = ''1080p'', t_movement_amplitude = ''auto''\<rparr>),
         setUi (\<lambda>u. u\<lparr>isGenerating := True, error := None, currentTaskResponse := None,
                       taskCreationsResponse := None, isPolling := False\<rparr>) w))"

text \<open>
  What both submit handlers do with the answer: show it, prepend it to the history, and
  start polling when it carries a task id.
\<close>

definition accept_response :: "tracker \<Rightarrow> ViduVideoResponse \<Rightarrow> world \<Rightarrow> world" where
  "accept_response r response w =
     (let w1 = setUi (\<lambda>u. u\<lparr>currentTaskResponse := Some response,
                              videoHistory := response # videoHistory u\<rparr>) w
      in if str_truthy (v_task_id response) then
           pollTaskCreations r (the (v_task_id response)) (setUi (\<lambda>u. u\<lparr>isPolling := True\<rparr>) w1)
         else w1)"

definition handleSubmit_resume :: "tracker \<Rightarrow> thrown + ViduVideoResponse \<Rightarrow> world \<Rightarrow> world" where
  "handleSubmit_resume r res w =
     setUi (\<lambda>u. u\<lparr>isGenerating := False\<rparr>)
       (case res of
          Inr response \<Rightarrow> accept_response r response w
        | Inl err \<Rightarrow>
            setUi (\<lambda>u. u\<lparr>error := Some (case err of Error m \<Rightarrow> m
                                          | NonError \<Rightarrow> ''Failed to generate video'')\<rparr>) w)"

subsection \<open>handleImageSubmit\<close>

text \<open>\<open>defaultDuration = imageModel === 'viduq1' ? 5 : 4; finalDuration = imageDuration || defaultDuration\<close>\<close>

definition clientFinalDuration :: "image_model \<Rightarrow> number \<Rightarrow> number" where
  "clientFinalDuration m d =
     (let defaultDuration = (if m = Viduq1 then Num 5 else Num 4)
      in if num_truthy d then d else defaultDuration)"

text \<open>The body of the request; the spread adds \<open>prompt\<close> only for a non-empty trimmed prompt.\<close>

definition imageRequest :: "tracker \<Rightarrow> string \<Rightarrow> img2video_body" where
  "imageRequest r finalImageUrl =
     \<lparr>b_images = JArr [JStr finalImageUrl],
      b_prompt = (if trim (imagePrompt r) \<noteq> [] then JStr (trim (imagePrompt r)) else JUndefined),
      b_model = JStr (model_name (imageModel r)),
      b_duration = JStr (toString (clientFinalDuration (imageModel r) (imageDuration r))),
      b_seed = JUndefined,
      b_resolution = JUndefined,
      b_movement_amplitude = JStr ''auto'',
      b_bgm = JBool (imageBgm r),
      b_payload = JUndefined,
      b_callback_url = JUndefined\<rparr>"

text \<open>
  The handler returns early, or awaits the conversion of the selected file, or sends the
  request.
\<close>

datatype image_step = Returned world | ReadFile string world | Sent request world

definition handleImageSubmit_send :: "tracker \<Rightarrow> string \<Rightarrow> world \<Rightarrow> image_step" where
  "handleImageSubmit_send r finalImageUrl w =
     Sent (PostImg2video (imageRequest r finalImageUrl))
       (setUi (\<lambda>u. u\<lparr>isGeneratingFromImage := True, error := None, currentTaskResponse := None,
                     taskCreationsResponse := None, isPolling := False\<rparr>) w)"

definition handleImageSubmit_start :: "world \<Rightarrow> image_step" where
  "handleImageSubmit_start w =
     (let r = ui w in
      if isGeneratingFromImage r then Returned w
      else if uploadMethod r = Url then
        (if trim (imageUrl r) = [] then
           Returned (setUi (\<lambda>u. u\<lparr>error := Some ''Please provide an image URL''\<rparr>) w)
         else handleImageSubmit_send r (trim (imageUrl r)) w)
      else
        (case imageFile r of
           None \<Rightarrow> Returned (setUi (\<lambda>u. u\<lparr>error := Some ''Please select an image file''\<rparr>) w)
         | Some f \<Rightarrow> ReadFile f w))"

text \<open>After \<open>await fileToDataUrl(imageFile)\<close>.\<close>

definition handleImageSubmit_file :: "tracker \<Rightarrow> thrown + string \<Rightarrow> world \<Rightarrow> image_step" where
  "handleImageSubmit_file r res w =
     (case res of
        Inr dataUrl \<Rightarrow> handleImageSubmit_send r dataUrl w
      | Inl err \<Rightarrow> Returned (setUi (\<lambda>u. u\<lparr>error := Some ''Failed to process image file''\<rparr>) w))"

definition handleImageSubmit_resume ::
  "tracker \<Rightarrow> thrown + ViduVideoResponse \<Rightarrow> world \<Rightarrow> world" where
  "handleImageSubmit_resume r res w =
     setUi (\<lambda>u. u\<lparr>isGeneratingFromImage := False\<rparr>)
       (case res of
          Inr response \<Rightarrow> accept_response r response w
        | Inl err \<Rightarrow>
            setUi (\<lambda>u. u\<lparr>error := Some (case err of Error m \<Rightarrow> m
                                          | NonError \<Rightarrow> ''Failed to generate video from image'')\<rparr>) w)"

subsection \<open>getGeneratedVideo, getCurrentStatus, handleRetry\<close>

definition getGeneratedVideo :: "tracker \<Rightarrow> ViduTaskCreation option" where
  "getGeneratedVideo r =
     (case taskCreationsResponse r of
        Some resp \<Rightarrow>
          (if r_state resp = ''success'' then
             (case r_creations resp of Some (c # cs) \<Rightarrow> Some c | _ \<Rightarrow> None)
           else None)
      | None \<Rightarrow> None)"

definition getCurrentStatus :: "tracker \<Rightarrow> string" where
  "getCurrentStatus r =
     (if isPolling r then ''processing''
      else if (case taskCreationsResponse r of
                 Some resp \<Rightarrow> r_state resp = ''success'' \<and> has_creations (r_creations resp)
               | None \<Rightarrow> False) then ''completed''
      else if (case taskCreationsResponse r of
                 Some resp \<Rightarrow> r_state resp = ''error'' \<or> str_truthy (r_err_code resp)
               | None \<Rightarrow> False) then ''failed''
      else if (case currentTaskResponse r of
                 Some resp \<Rightarrow> str_truthy (v_task_id resp)
               | None \<Rightarrow> False) then ''pending''
      else ''idle'')"

definition handleRetry :: "world \<Rightarrow> world" where
  "handleRetry w =
     setUi (\<lambda>u. u\<lparr>error := None, taskCreationsResponse := None, currentTaskResponse := None,
                   isPolling := False\<rparr>) w"

subsection \<open>handleTaskLookup\<close>

definition handleTaskLookup_start :: "world \<Rightarrow> request option \<times> world" where
  "handleTaskLookup_start w =
     (let r = ui w in
      if trim (taskIdInput r) = [] \<or> isLookingUp r then (None, w)
      else
        (Some (GetTaskCreations (trim (taskIdInput r))),
         setUi (\<lambda>u. u\<lparr>isLookingUp := True, error := None, currentTaskResponse := None,
                       taskCreationsResponse := None, isPolling := False\<rparr>) w))"

text \<open>
  The object \<open>mockResponse\<close>. The two time stamps are the results of the two calls of
  \<open>new Date().toISOString()\<close>.
\<close>

definition mockResponse ::
  "string \<Rightarrow> string \<Rightarrow> string \<Rightarrow> ViduTaskCreationsResponse \<Rightarrow> ViduVideoResponse" where
  "mockResponse taskId created updated response =
     \<lparr>v_task_id = Some taskId,
      v_state = r_state response,
      v_status = (if r_state response = ''success'' then ''completed''
                  else if r_state response = ''error'' then ''failed'' else ''processing''),
      v_created_at = created,
      v_updated_at = updated,
      v_prompt = str_or (r_payload response) ''Retrieved from task ID'',
      v_model = ''viduq1'',
      v_style = ''general'',
      v_duration = 5,
      v_aspect_ratio = ''16:9'',
      v_resolution = ''1080p'',
      v_movement_amplitude = ''auto''\<rparr>"

text \<open>\<open>setVideoHistory(prev => prev.some(video => video.task_id === id) ? prev : [mock, ...prev])\<close>\<close>

definition add_if_absent :: "string \<Rightarrow> ViduVideoResponse \<Rightarrow> ViduVideoResponse list \<Rightarrow> ViduVideoResponse list" where
  "add_if_absent taskId mock prev =
     (let exists = list_ex (\<lambda>video. v_task_id video = Some taskId) prev
      in if \<not> exists then mock # prev else prev)"

text \<open>The bytes that stand before each item of the not-found message in the source file.\<close>

definition bullet :: string where
  "bullet = [CHR 0xC3, CHR 0xA2, CHR 0xE2, CHR 0x82, CHR 0xAC, CHR 0xC2, CHR 0xA2]"

definition notFoundMessage :: "string \<Rightarrow> string" where
  "notFoundMessage taskId =
     ''Task ID '' @ [CHR 0x22] @ taskId @ [CHR 0x22] @ '' was not found. Please verify that:'' @ [CHR 0x0A]
     @ bullet @ '' The task ID is correct and complete'' @ [CHR 0x0A]
     @ bullet @ '' The video generation was successful'' @ [CHR 0x0A]
     @ bullet @ '' The task ID belongs to your account'' @ [CHR 0x0A]
     @ bullet @ '' The task hasn'' @ [CHR 0x27] @ ''t expired (tasks may have a limited lifespan)''"

definition lookupErrorMessage :: "string \<Rightarrow> thrown \<Rightarrow> string" where
  "lookupErrorMessage taskId err =
     (case err of
        NonError \<Rightarrow> ''Failed to retrieve video''
      | Error m \<Rightarrow>
          if str_includes m ''404'' \<or> str_includes (toLowerCase m) ''not found'' then
            notFoundMessage taskId
          else if str_includes (toLowerCase m) ''unauthorized'' \<or> str_includes (toLowerCase m) ''401'' then
            ''Authentication failed. Please check your API key configuration.''
          else if str_includes (toLowerCase m) ''timeout'' then
            ''Request timed out. Please try again.''
          else m)"

text \<open>
  After \<open>await viduApi.getTaskCreations(...)\<close>. \<open>taskIdInput\<close> is the variable of the
  closure \<open>r\<close>, the input as it was when the lookup was started.
\<close>

definition handleTaskLookup_resume ::
  "tracker \<Rightarrow> string \<Rightarrow> string \<Rightarrow> thrown + ViduTaskCreationsResponse \<Rightarrow> world \<Rightarrow> world" where
  "handleTaskLookup_resume r created updated res w =
     setUi (\<lambda>u. u\<lparr>isLookingUp := False\<rparr>)
       (case res of
          Inr response \<Rightarrow>
            (let taskId = trim (taskIdInput r);
                 mock = mockResponse taskId created updated response
             in setUi (\<lambda>u. u\<lparr>taskCreationsResponse := Some response,
                               currentTaskResponse := Some mock,
                               videoHistory := add_if_absent taskId mock (videoHistory u),
                               taskIdInput := []\<rparr>) w)
        | Inl err \<Rightarrow>
            setUi (\<lambda>u. u\<lparr>error := Some (lookupErrorMessage (trim (taskIdInput r)) err)\<rparr>) w)"

subsection \<open>Events\<close>

text \<open>
  What can happen to the component: the user edits an input or presses a button, an
  awaited call settles (the event carries the closure of the handler that awaited it and
  the outcome), or a timer fires.
\<close>

datatype event =
    SetPrompt string
  | SetImagePrompt string
  | SetImageFile string
  | SetImageUrl string
  | SetUploadMethod upload_method
  | SetImageModel image_model
  | SetImageDuration number
  | SetImageBgm bool
  | SetTaskIdInput string
  | SetActiveTab tab
  | Submit
  | SubmitSettled tracker "thrown + ViduVideoResponse"
  | ImageSubmit
  | ImageFileSettled tracker "thrown + string"
  | ImageSubmitSettled tracker "thrown + ViduVideoResponse"
  | TaskLookup
  | TaskLookupSettled tracker string string "thrown + ViduTaskCreationsResponse"
  | IntervalFires nat
  | IntervalSettled nat "thrown + ViduTaskCreationsResponse"
  | TimeoutFires nat
  | Retry

fun world_of :: "image_step \<Rightarrow> world" where
  "world_of (Returned w) = w"
| "world_of (ReadFile f w) = w"
| "world_of (Sent q w) = w"

fun request_of :: "image_step \<Rightarrow> request option" where
  "request_of (Sent q w) = Some q"
| "request_of _ = None"

text \<open>The state after an event; an event that is not enabled changes nothing.\<close>

fun step :: "world \<Rightarrow> event \<Rightarrow> world" where
  "step w (SetPrompt v) = setUi (\<lambda>u. u\<lparr>prompt := v\<rparr>) w"
| "step w (SetImagePrompt v) = setUi (\<lambda>u. u\<lparr>imagePrompt := v\<rparr>) w"
| "step w (SetImageFile f) = setUi (\<lambda>u. u\<lparr>imageFile := Some f\<rparr>) w"
| "step w (SetImageUrl v) = setUi (\<lambda>u. u\<lparr>imageUrl := v\<rparr>) w"
| "step w (SetUploadMethod m) = setUi (\<lambda>u. u\<lparr>uploadMethod := m\<rparr>) w"
| "step w (SetImageModel m) =
     setUi (\<lambda>u. u\<lparr>imageModel := m, imageDuration := (if m = Viduq1 then Num 5 else Num 4)\<rparr>) w"
| "step w (SetImageDuration d) = setUi (\<lambda>u. u\<lparr>imageDuration := d\<rparr>) w"
| "step w (SetImageBgm b) = setUi (\<lambda>u. u\<lparr>imageBgm := b\<rparr>) w"
| "step w (SetTaskIdInput v) = setUi (\<lambda>u. u\<lparr>taskIdInput := v\<rparr>) w"
| "step w (SetActiveTab t) = setUi (\<lambda>u. u\<lparr>activeTab := t\<rparr>) w"
| "step w Submit = snd (handleSubmit_start w)"
| "step w (SubmitSettled r res) = handleSubmit_resume r res w"
| "step w ImageSubmit = world_of (handleImageSubmit_start w)"
| "step w (ImageFileSettled r res) = world_of (handleImageSubmit_file r res w)"
| "step w (ImageSubmitSettled r res) = handleImageSubmit_resume r res w"
| "step w TaskLookup = snd (handleTaskLookup_start w)"
| "step w (TaskLookupSettled r created updated res) = handleTaskLookup_resume r created updated res w"
| "step w (IntervalFires h) = w"
| "step w (IntervalSettled h res) = pollInterval_resume h res w"
| "step w (TimeoutFires h) = (case pollTimeout_fire h w of Some w' \<Rightarrow> w' | None \<Rightarrow> w)"
| "step w Retry = handleRetry w"

text \<open>The request an event sends, if any.\<close>

fun issued :: "world \<Rightarrow> event \<Rightarrow> request option" where
  "issued w Submit = fst (handleSubmit_start w)"
| "issued w ImageSubmit = request_of (handleImageSubmit_start w)"
| "issued w (ImageFileSettled r res) = request_of (handleImageSubmit_file r res w)"
| "issued w TaskLookup = fst (handleTaskLookup_start w)"
| "issued w (IntervalFires h) = pollInterval_fire h w"
| "issued w _ = None"

definition run :: "world \<Rightarrow> event list \<Rightarrow> world" where
  "run w evs = foldl step w evs"

text \<open>
  What the handlers reset before they send a request: \<open>setError(null)\<close>,
  \<open>setCurrentTaskResponse(null)\<close>, \<open>setTaskCreationsResponse(null)\<close>, \<open>setIsPolling(false)\<close>.
\<close>

definition cleared :: "tracker \<Rightarrow> bool" where
  "cleared u \<longleftrightarrow>
     \<not> isPolling u \<and> currentTaskResponse u = None \<and> taskCreationsResponse u = None \<and> error u = None"

section \<open>Invariants of the table of timers\<close>

text \<open>What a step can do to the table: keep an entry, drop it, or add the two fresh entries.\<close>

definition extends :: "world \<Rightarrow> world \<Rightarrow> bool" where
  "extends w w' \<longleftrightarrow>
     (next_handle w' = next_handle w \<and> (\<forall>h. timers w' h = timers w h \<or> timers w' h = None))
   \<or> (next_handle w' = Suc (Suc (next_handle w)) \<and>
      (\<exists>taskId cap. \<forall>h. timers w' h =
         ((timers w)(next_handle w \<mapsto> PollInterval 5000 taskId,
                     Suc (next_handle w) \<mapsto> PollTimeout 600000 (next_handle w) cap)) h))"

text \<open>A handle that has been handed out and is no longer in the table.\<close>

definition spent :: "nat \<Rightarrow> world \<Rightarrow> bool" where
  "spent h w \<longleftrightarrow> h < next_handle w \<and> timers w h = None"

text \<open>In a state the component can reach, every handle in the table has been handed out,
  and a timeout clears an interval that was handed out before it.\<close>

definition wf_timers :: "world \<Rightarrow> bool" where
  "wf_timers w \<longleftrightarrow>
     (\<forall>h t. timers w h = Some t \<longrightarrow> h < next_handle w) \<and>
     (\<forall>h d p cap. timers w h = Some (PollTimeout d p cap) \<longrightarrow> p < h)"

section \<open>Example inputs\<close>

text \<open>A body with one image, the given model and duration, and no other field.\<close>

definition example_body :: "json \<Rightarrow> json \<Rightarrow> img2video_body" where
  "example_body m d =
     \<lparr>b_images = JArr [JStr ''http://x/a.png''], b_prompt = JUndefined, b_model = m,
      b_duration = d, b_seed = JUndefined, b_resolution = JUndefined,
      b_movement_amplitude = JUndefined, b_bgm = JUndefined, b_payload = JUndefined,
      b_callback_url = JUndefined\<rparr>"

text \<open>The initial state with an image URL typed in and the given model and duration.\<close>

definition example_tracker :: "image_model \<Rightarrow> number \<Rightarrow> tracker" where
  "example_tracker m d = initial_tracker\<lparr>imageUrl := ''http://x/a.png'', imageModel := m, imageDuration := d\<rparr>"

text \<open>Answers of the remote API used in the examples.\<close>

definition created :: "string \<Rightarrow> ViduVideoResponse" where
  "created taskId =
     \<lparr>v_task_id = Some taskId, v_state = ''created'', v_status = [], v_created_at = ''2025-01-01T00:00:00Z'',
      v_updated_at = [], v_prompt = ''a cat'', v_model = ''viduq1'', v_style = ''general'',
      v_duration = 5, v_aspect_ratio = ''16:9'', v_resolution = ''1080p'',
      v_movement_amplitude = ''auto''\<rparr>"

definition creation_a :: ViduTaskCreation where
  "creation_a = \<lparr>c_id = ''a'', c_url = ''http://x/a.mp4'', c_cover_url = ''http://x/a.jpg''\<rparr>"

definition success_response :: ViduTaskCreationsResponse where
  "success_response =
     \<lparr>r_state = ''success'', r_err_code = None, r_credits = 4, r_payload = None,
      r_creations = Some [creation_a]\<rparr>"

definition error_response :: ViduTaskCreationsResponse where
  "error_response =
     \<lparr>r_state = ''error'', r_err_code = Some ''E1'', r_credits = 0, r_payload = None,
      r_creations = None\<rparr>"

definition processing_response :: ViduTaskCreationsResponse where
  "processing_response =
     \<lparr>r_state = ''processing'', r_err_code = None, r_credits = 0, r_payload = Some ''p1'',
      r_creations = Some []\<rparr>"

text \<open>The user has typed a prompt, submitted it and received task \<open>t1\<close>: the tracker polls.\<close>

definition typed_tracker :: tracker where
  "typed_tracker = initial_tracker\<lparr>prompt := ''a cat''\<rparr>"

definition polling_world :: world where
  "polling_world =
     run initial_world [SetPrompt ''a cat'', Submit, SubmitSettled typed_tracker (Inr (created ''t1''))]"

definition both_response :: ViduTaskCreationsResponse where
  "both_response =
     \<lparr>r_state = ''success'', r_err_code = Some ''E1'', r_credits = 4, r_payload = None,
      r_creations = Some [creation_a]\<rparr>"

text \<open>The user has typed the task id \<open>t7\<close>, with white space around it, into the lookup form.\<close>

definition lookup_tracker :: tracker where
  "lookup_tracker = initial_tracker\<lparr>taskIdInput := '' t7 ''\<rparr>"

definition lookup_world :: world where
  "lookup_world = run initial_world [SetTaskIdInput '' t7 '', TaskLookup]"

text \<open>A second submission while task \<open>t1\<close> is polled, answered with task \<open>t2\<close>.\<close>

definition superseded_world :: world where
  "superseded_world = run polling_world [Submit, SubmitSettled (ui polling_world) (Inr (created ''t2''))]"

text \<open>The status check of task \<open>t1\<close> has answered with an error, then with a success.\<close>

definition failed_world :: world where
  "failed_world = step polling_world (IntervalSettled 0 (Inr error_response))"

definition completed_world :: world where
  "completed_world = step polling_world (IntervalSettled 0 (Inr success_response))"

text \<open>The closure of a lookup of task \<open>t1\<close>, started while that task is polled.\<close>

definition t1_lookup_tracker :: tracker where
  "t1_lookup_tracker = (ui polling_world)\<lparr>taskIdInput := ''t1''\<rparr>"

text \<open>
  The no-break space U+00A0, the input \<open>t7\<close> between two of them, and the closure of a
  lookup of that input.
\<close>

definition nbsp :: string where
  "nbsp = [CHR 0xC2, CHR 0xA0]"

definition padded_t7 :: string where
  "padded_t7 = nbsp @ ''t7'' @ nbsp"

definition nbsp_lookup_tracker :: tracker where
  "nbsp_lookup_tracker = initial_tracker\<lparr>taskIdInput := padded_t7\<rparr>"

section \<open>Properties of the proxy\<close>

lemma img2video_InrD:
  assumes "img2video apiKey body = Inr rd"
  shows "rd_model rd = dflt (JStr ''viduq1'') (b_model body)"
    and "rd_model rd \<in> set validModels"
    and "rd_duration rd = finalDuration (rd_model rd) (b_duration body)"
    and "rd_resolution rd = if_truthy (finalResolution (rd_model rd) (rd_duration rd) (b_resolution body))"
  using assms
  by (auto simp: img2video_def Let_def split: if_splits json.splits)

lemma example_forwarded:
  "m \<in> set validModels \<Longrightarrow>
   img2video (Some ''k'') (example_body m d) =
     Inr \<lparr>rd_model = m, rd_images = JArr [JStr ''http://x/a.png''],
          rd_duration = finalDuration m d, rd_movement_amplitude = JStr ''auto'',
          rd_bgm = JBool False, rd_prompt = None, rd_seed = None,
          rd_resolution = if_truthy (finalResolution m (finalDuration m d) JUndefined),
          rd_payload = None, rd_callback_url = None\<rparr>"
  by (auto simp: img2video_def example_body_def dflt_def if_truthy_def validModels_def Let_def)

text \<open>
  The defaults of the proxy for a duration that is a number. Of every image-to-video
  request that the proxy forwards and whose body gives no resolution: when the model
  (after its default) is not \<open>viduq1\<close>, the forwarded resolution is \<open>360p\<close> if the
  effective duration is the number 4 and \<open>720p\<close> if it is the number 8; when the model is
  \<open>viduq1\<close>, it is \<open>1080p\<close> whatever the duration.
\<close>

lemma img2video_default_resolution:
  assumes "img2video apiKey body = Inr rd" and "\<not> truthy (b_resolution body)"
  shows "(rd_model rd \<noteq> JStr ''viduq1'' \<and> rd_duration rd = JNum 4 \<longrightarrow> rd_resolution rd = Some (JStr ''360p''))
       \<and> (rd_model rd \<noteq> JStr ''viduq1'' \<and> rd_duration rd = JNum 8 \<longrightarrow> rd_resolution rd = Some (JStr ''720p''))
       \<and> (rd_model rd = JStr ''viduq1'' \<longrightarrow> rd_resolution rd = Some (JStr ''1080p''))"
  using assms(2) img2video_InrD(4)[OF assms(1)]
  by (simp add: finalResolution_def if_truthy_def)

lemma img2video_default_resolution_examples:
  "(case img2video (Some ''k'') (example_body (JStr ''vidu2.0'') (JNum 4)) of
      Inr rd \<Rightarrow> rd_model rd \<noteq> JStr ''viduq1'' \<and> rd_duration rd = JNum 4
                \<and> rd_resolution rd = Some (JStr ''360p'')
    | Inl e \<Rightarrow> False)
   \<and> (case img2video (Some ''k'') (example_body (JStr ''vidu1.5'') (JNum 8)) of
      Inr rd \<Rightarrow> rd_model rd \<noteq> JStr ''viduq1'' \<and> rd_duration rd = JNum 8
                \<and> rd_resolution rd = Some (JStr ''720p'')
    | Inl e \<Rightarrow> False)
   \<and> (case img2video (Some ''k'') (example_body JUndefined (JNum 8)) of
      Inr rd \<Rightarrow> rd_model rd = JStr ''viduq1'' \<and> rd_resolution rd = Some (JStr ''1080p'')
    | Inl e \<Rightarrow> False)
   \<and> \<not> truthy (b_resolution (example_body (JStr ''vidu2.0'') (JNum 4)))"
proof -
  have r: "\<not> truthy (b_resolution (example_body m d))" for m d
    by (simp add: example_body_def)
  obtain rd1 where f1: "img2video (Some ''k'') (example_body (JStr ''vidu2.0'') (JNum 4)) = Inr rd1"
    and m1: "rd_model rd1 = JStr ''vidu2.0''" and d1: "rd_duration rd1 = JNum 4"
    by (simp add: example_forwarded validModels_def finalDuration_def)
  obtain rd2 where f2: "img2video (Some ''k'') (example_body (JStr ''vidu1.5'') (JNum 8)) = Inr rd2"
    and m2: "rd_model rd2 = JStr ''vidu1.5''" and d2: "rd_duration rd2 = JNum 8"
    by (simp add: example_forwarded validModels_def finalDuration_def)
  obtain rd3 where f3: "img2video (Some ''k'') (example_body JUndefined (JNum 8)) = Inr rd3"
    and m3: "rd_model rd3 = JStr ''viduq1''"
    by (simp add: img2video_def example_body_def dflt_def validModels_def Let_def)
  have "rd_resolution rd1 = Some (JStr ''360p'')"
    using img2video_default_resolution [OF f1 r] m1 d1 by simp
  moreover have "rd_resolution rd2 = Some (JStr ''720p'')"
    using img2video_default_resolution [OF f2 r] m2 d2 by simp
  moreover have "rd_resolution rd3 = Some (JStr ''1080p'')"
    using img2video_default_resolution [OF f3 r] m3 by simp
  ultimately show ?thesis
    using f1 f2 f3 m1 m2 m3 d1 d2 r by simp
qed

text \<open>
  C5. Of every image-to-video request whose body gives no duration (a falsy one) and that
  the proxy forwards, the duration is the number 5 when the model is \<open>viduq1\<close> and the
  number 4 when it is \<open>vidu2.0\<close> or \<open>vidu1.5\<close>. The browser client resolves a falsy
  \<open>imageDuration\<close> in the same way.
\<close>

theorem default_duration:
  "(img2video apiKey body = Inr rd \<and> \<not> truthy (b_duration body) \<longrightarrow>
      (rd_model rd = JStr ''viduq1'' \<longrightarrow> rd_duration rd = JNum 5) \<and>
      (rd_model rd = JStr ''vidu2.0'' \<or> rd_model rd = JStr ''vidu1.5'' \<longrightarrow> rd_duration rd = JNum 4))
   \<and> (\<not> num_truthy d \<longrightarrow>
      clientFinalDuration Viduq1 d = Num 5 \<and>
      clientFinalDuration Vidu2_0 d = Num 4 \<and>
      clientFinalDuration Vidu1_5 d = Num 4)"
proof -
  have "rd_duration rd = (if rd_model rd = JStr ''viduq1'' then JNum 5 else JNum 4)"
    if "img2video apiKey body = Inr rd" and "\<not> truthy (b_duration body)"
    using img2video_InrD(3)[OF that(1)] that(2) by (simp add: finalDuration_def)
  then show ?thesis
    by (auto simp: clientFinalDuration_def)
qed

theorem default_duration_witness:
  "(case img2video (Some ''k'') (example_body JUndefined JUndefined) of
      Inr rd \<Rightarrow> rd_model rd = JStr ''viduq1'' \<and> rd_duration rd = JNum 5 | Inl e \<Rightarrow> False)
   \<and> (case img2video (Some ''k'') (example_body (JStr ''vidu2.0'') JUndefined) of
      Inr rd \<Rightarrow> rd_model rd = JStr ''vidu2.0'' \<and> rd_duration rd = JNum 4 | Inl e \<Rightarrow> False)
   \<and> (case img2video (Some ''k'') (example_body (JStr ''vidu1.5'') JNull) of
      Inr rd \<Rightarrow> rd_model rd = JStr ''vidu1.5'' \<and> rd_duration rd = JNum 4 | Inl e \<Rightarrow> False)
   \<and> \<not> truthy (b_duration (example_body JUndefined JUndefined))
   \<and> \<not> truthy (b_duration (example_body (JStr ''vidu1.5'') JNull))
   \<and> \<not> num_truthy NaN
   \<and> clientFinalDuration Viduq1 NaN = Num 5
   \<and> clientFinalDuration Vidu2_0 NaN = Num 4
   \<and> clientFinalDuration Vidu1_5 (Num 0) = Num 4"
proof -
  have t: "\<not> truthy (b_duration (example_body m JUndefined))"
     "\<not> truthy (b_duration (example_body m JNull))" for m
    by (simp_all add: example_body_def)
  obtain rd1 where f1: "img2video (Some ''k'') (example_body JUndefined JUndefined) = Inr rd1"
    and m1: "rd_model rd1 = JStr ''viduq1''"
    by (simp add: img2video_def example_body_def dflt_def validModels_def Let_def)
  obtain rd2 where f2: "img2video (Some ''k'') (example_body (JStr ''vidu2.0'') JUndefined) = Inr rd2"
    and m2: "rd_model rd2 = JStr ''vidu2.0''"
    by (simp add: example_forwarded validModels_def)
  obtain rd3 where f3: "img2video (Some ''k'') (example_body (JStr ''vidu1.5'') JNull) = Inr rd3"
    and m3: "rd_model rd3 = JStr ''vidu1.5''"
    by (simp add: example_forwarded validModels_def)
  have "rd_duration rd1 = JNum 5"
    using default_duration [of "Some ''k''" "example_body JUndefined JUndefined" rd1 NaN] f1 m1 t by simp
  moreover have "rd_duration rd2 = JNum 4"
    using default_duration [of "Some ''k''" "example_body (JStr ''vidu2.0'') JUndefined" rd2 NaN] f2 m2 t by simp
  moreover have "rd_duration rd3 = JNum 4"
    using default_duration [of "Some ''k''" "example_body (JStr ''vidu1.5'') JNull" rd3 "Num 0"] f3 m3 t by simp
  moreover have "clientFinalDuration Viduq1 NaN = Num 5 \<and> clientFinalDuration Vidu2_0 NaN = Num 4"
    using default_duration [of "Some ''k''" "example_body JUndefined JUndefined" rd1 NaN] by simp
  moreover have "clientFinalDuration Vidu1_5 (Num 0) = Num 4"
    using default_duration [of "Some ''k''" "example_body JUndefined JUndefined" rd1 "Num 0"] by simp
  ultimately show ?thesis
    using f1 f2 f3 m1 m2 m3 t by simp
qed

lemma digits_nonempty: "digits n \<noteq> []"
  by (subst digits.simps) simp

lemma toString_nonempty: "toString d \<noteq> []"
  by (cases d) (simp_all add: digits_nonempty)

text \<open>
  C4 on the submissions of the browser client. With the model \<open>vidu2.0\<close> and the duration
  4 selected, or \<open>vidu1.5\<close> and 8, the effective duration of the client is 4 or 8, it
  sends no resolution, and it sends the duration as the string \<open>4\<close> or \<open>8\<close>. The proxy
  compares that string with the numbers 4 and 8, finds neither, and forwards the request
  without a resolution, where a body with the number gets \<open>360p\<close> or \<open>720p\<close>.
\<close>

theorem client_duration_gets_no_resolution:
  "clientFinalDuration Vidu2_0 (Num 4) = Num 4
   \<and> clientFinalDuration Vidu1_5 (Num 8) = Num 8
   \<and> b_resolution (imageRequest (example_tracker Vidu2_0 (Num 4)) ''http://x/a.png'') = JUndefined
   \<and> b_duration (imageRequest (example_tracker Vidu2_0 (Num 4)) ''http://x/a.png'') = JStr ''4''
   \<and> b_duration (imageRequest (example_tracker Vidu1_5 (Num 8)) ''http://x/a.png'') = JStr ''8''
   \<and> (case img2video (Some ''k'') (imageRequest (example_tracker Vidu2_0 (Num 4)) ''http://x/a.png'') of
        Inr rd \<Rightarrow> rd_model rd = JStr ''vidu2.0'' \<and> rd_duration rd = JStr ''4''
                  \<and> rd_resolution rd = None
      | Inl e \<Rightarrow> False)
   \<and> (case img2video (Some ''k'') (imageRequest (example_tracker Vidu1_5 (Num 8)) ''http://x/a.png'') of
        Inr rd \<Rightarrow> rd_model rd = JStr ''vidu1.5'' \<and> rd_duration rd = JStr ''8''
                  \<and> rd_resolution rd = None
      | Inl e \<Rightarrow> False)
   \<and> (case img2video (Some ''k'') (example_body (JStr ''vidu2.0'') (JNum 4)) of
        Inr rd \<Rightarrow> rd_resolution rd = Some (JStr ''360p'') | Inl e \<Rightarrow> False)
   \<and> (case img2video (Some ''k'') (example_body (JStr ''vidu1.5'') (JNum 8)) of
        Inr rd \<Rightarrow> rd_resolution rd = Some (JStr ''720p'') | Inl e \<Rightarrow> False)"
proof -
  have d: "digits 4 = ''4''" "digits 8 = ''8''"
    by code_simp+
  have c: "clientFinalDuration Vidu2_0 (Num 4) = Num 4" "clientFinalDuration Vidu1_5 (Num 8) = Num 8"
    by (simp_all add: clientFinalDuration_def)
  have b: "b_resolution (imageRequest (example_tracker Vidu2_0 (Num 4)) ''http://x/a.png'') = JUndefined"
    "b_duration (imageRequest (example_tracker Vidu2_0 (Num 4)) ''http://x/a.png'') = JStr ''4''"
    "b_duration (imageRequest (example_tracker Vidu1_5 (Num 8)) ''http://x/a.png'') = JStr ''8''"
    by (simp_all add: imageRequest_def example_tracker_def c d)
  have s4: "case img2video (Some ''k'') (imageRequest (example_tracker Vidu2_0 (Num 4)) ''http://x/a.png'') of
        Inr rd \<Rightarrow> rd_model rd = JStr ''vidu2.0'' \<and> rd_duration rd = JStr ''4''
                  \<and> rd_resolution rd = None
      | Inl e \<Rightarrow> False"
    by (simp add: img2video_def imageRequest_def example_tracker_def c d dflt_def validModels_def
        Let_def finalDuration_def finalResolution_def if_truthy_def)
  have s8: "case img2video (Some ''k'') (imageRequest (example_tracker Vidu1_5 (Num 8)) ''http://x/a.png'') of
        Inr rd \<Rightarrow> rd_model rd = JStr ''vidu1.5'' \<and> rd_duration rd = JStr ''8''
                  \<and> rd_resolution rd = None
      | Inl e \<Rightarrow> False"
    by (simp add: img2video_def imageRequest_def example_tracker_def c d dflt_def validModels_def
        Let_def finalDuration_def finalResolution_def if_truthy_def)
  have n4: "case img2video (Some ''k'') (example_body (JStr ''vidu2.0'') (JNum 4)) of
        Inr rd \<Rightarrow> rd_resolution rd = Some (JStr ''360p'') | Inl e \<Rightarrow> False"
    by (simp add: example_forwarded validModels_def finalDuration_def finalResolution_def
        if_truthy_def)
  have n8: "case img2video (Some ''k'') (example_body (JStr ''vidu1.5'') (JNum 8)) of
        Inr rd \<Rightarrow> rd_resolution rd = Some (JStr ''720p'') | Inl e \<Rightarrow> False"
    by (simp add: example_forwarded validModels_def finalDuration_def finalResolution_def
        if_truthy_def)
  show ?thesis
    using c b s4 s8 n4 n8 by simp
qed

lemma imageRequest_forwarded:
  "img2video apiKey (imageRequest r u) = Inr rd \<Longrightarrow>
   rd_model rd = JStr (model_name (imageModel r)) \<and>
   rd_duration rd = JStr (toString (clientFinalDuration (imageModel r) (imageDuration r)))"
  by (auto simp: img2video_def imageRequest_def dflt_def Let_def finalDuration_def toString_nonempty
      split: if_splits)

text \<open>
  C9, as stated, fails for the empty string: it is falsy, so the proxy replaces it by the
  number 4 and then adds the resolution \<open>360p\<close>.
\<close>

theorem string_duration_counterexample:
  "b_duration (example_body (JStr ''vidu2.0'') (JStr [])) = JStr []
   \<and> b_resolution (example_body (JStr ''vidu2.0'') (JStr [])) = JUndefined
   \<and> (case img2video (Some ''k'') (example_body (JStr ''vidu2.0'') (JStr [])) of
        Inr rd \<Rightarrow> rd_model rd = JStr ''vidu2.0'' \<and> rd_resolution rd = Some (JStr ''360p'')
      | Inl e \<Rightarrow> False)"
proof -
  have "b_duration (example_body (JStr ''vidu2.0'') (JStr [])) = JStr []
      \<and> b_resolution (example_body (JStr ''vidu2.0'') (JStr [])) = JUndefined"
    by (simp add: example_body_def)
  moreover have "img2video (Some ''k'') (example_body (JStr ''vidu2.0'') (JStr [])) = Inr rd
      \<Longrightarrow> rd_model rd = JStr ''vidu2.0'' \<and> rd_resolution rd = Some (JStr ''360p'')" for rd
    by (auto simp: example_forwarded validModels_def finalDuration_def finalResolution_def
        if_truthy_def)
  moreover have "\<exists>rd. img2video (Some ''k'') (example_body (JStr ''vidu2.0'') (JStr [])) = Inr rd"
    by (simp add: example_forwarded validModels_def)
  ultimately show ?thesis by (auto split: sum.splits)
qed

text \<open>
  C9, amended. Of every forwarded image-to-video request whose duration is a non-empty
  string, whose resolution is omitted and whose model is not \<open>viduq1\<close>, the duration is
  forwarded as that string and no resolution field is added. The browser client always
  sends such a duration (the \<open>toString\<close> of a number) and no resolution, so none of its
  requests for another model than \<open>viduq1\<close> is forwarded with a resolution.
\<close>

theorem string_duration_no_resolution:
  "(img2video apiKey body = Inr rd \<and> b_duration body = JStr s \<and> s \<noteq> [] \<and>
      \<not> truthy (b_resolution body) \<and> rd_model rd \<noteq> JStr ''viduq1''
      \<longrightarrow> rd_duration rd = JStr s \<and> rd_resolution rd = None)
   \<and> (\<exists>t. t \<noteq> [] \<and> b_duration (imageRequest r u) = JStr t)
   \<and> b_resolution (imageRequest r u) = JUndefined
   \<and> (img2video apiKey (imageRequest r u) = Inr rd' \<and> imageModel r \<noteq> Viduq1
      \<longrightarrow> rd_resolution rd' = None)"
proof -
  have a: "rd_duration rd = JStr s \<and> rd_resolution rd = None"
    if "img2video apiKey body = Inr rd" "b_duration body = JStr s" "s \<noteq> []"
       "\<not> truthy (b_resolution body)" "rd_model rd \<noteq> JStr ''viduq1''" for apiKey body rd s
    using img2video_InrD(3,4)[OF that(1)] that(2-5)
    by (simp add: finalDuration_def finalResolution_def if_truthy_def)
  have b: "b_duration (imageRequest r u) = JStr (toString (clientFinalDuration (imageModel r) (imageDuration r)))"
    and c: "b_resolution (imageRequest r u) = JUndefined"
    by (simp_all add: imageRequest_def)
  have d: "rd_resolution rd' = None"
    if h: "img2video apiKey (imageRequest r u) = Inr rd'" and m: "imageModel r \<noteq> Viduq1"
  proof -
    have "rd_model rd' \<noteq> JStr ''viduq1''"
      using imageRequest_forwarded[OF h] m by (cases "imageModel r") simp_all
    with a[OF h b toString_nonempty] c show ?thesis by simp
  qed
  show ?thesis using a b c d toString_nonempty by blast
qed

theorem string_duration_no_resolution_witness:
  "(case img2video (Some ''k'') (imageRequest (example_tracker Vidu2_0 (Num 4)) ''http://x/a.png'') of
      Inr rd \<Rightarrow> rd_model rd = JStr ''vidu2.0'' \<and> rd_duration rd = JStr ''4'' \<and> rd_resolution rd = None
    | Inl e \<Rightarrow> False)
   \<and> imageModel (example_tracker Vidu2_0 (Num 4)) \<noteq> Viduq1
   \<and> \<not> truthy (b_resolution (imageRequest (example_tracker Vidu2_0 (Num 4)) ''http://x/a.png''))"
proof -
  let ?r = "example_tracker Vidu2_0 (Num 4)"
  let ?b = "imageRequest ?r ''http://x/a.png''"
  have m: "imageModel ?r \<noteq> Viduq1" by (simp add: example_tracker_def)
  have "toString (Num 4) = ''4''" by code_simp
  then have dur: "b_duration ?b = JStr ''4''"
    by (simp add: imageRequest_def example_tracker_def clientFinalDuration_def)
  have res: "\<not> truthy (b_resolution ?b)" by (simp add: imageRequest_def)
  obtain rd where f: "img2video (Some ''k'') ?b = Inr rd" and mo: "rd_model rd = JStr ''vidu2.0''"
    by (simp add: img2video_def imageRequest_def example_tracker_def dflt_def validModels_def Let_def)
  have "rd_duration rd = JStr ''4'' \<and> rd_resolution rd = None"
    using string_duration_no_resolution [of "Some ''k''" ?b rd "''4''" ?r "''http://x/a.png''" rd] f dur res mo
    by simp
  then show ?thesis using f m mo res by simp
qed

section \<open>Properties of the status checks and of the lookup entry\<close>

lemma trim_examples:
  "trim ''a cat'' = ''a cat''" "trim '' t7 '' = ''t7''" "trim ''t1'' = ''t1''"
  "trim padded_t7 = ''t7''"
  "trim nbsp = []"
  "trim ''http://x/a.png'' = ''http://x/a.png''"
  by code_simp+

lemmas tracker_defs =
  run_def handleSubmit_start_def handleSubmit_resume_def accept_response_def
  pollTaskCreations_def register_def clearInterval_def setUi_def Let_def
  pollInterval_resume_def pollInterval_fire_def pollTimeout_fire_def no_creations_def
  handleTaskLookup_start_def handleTaskLookup_resume_def handleRetry_def
  initial_world_def initial_tracker_def typed_tracker_def created_def
  trim_examples

lemma polling_world_ui:
  "ui polling_world = typed_tracker\<lparr>videoHistory := [created ''t1''],
      currentTaskResponse := Some (created ''t1''), isPolling := True\<rparr>"
  by (simp add: polling_world_def tracker_defs)

lemma polling_world_timers:
  "timers polling_world = [0 \<mapsto> PollInterval 5000 ''t1'', 1 \<mapsto> PollTimeout 600000 0 None]"
  "next_handle polling_world = 2"
  by (simp_all add: polling_world_def tracker_defs)

lemma pollInterval_resume_success:
  assumes "r_state response = ''success''" and "has_creations (r_creations response)"
  shows "pollInterval_resume h (Inr response) w =
     w\<lparr>ui := (ui w)\<lparr>taskCreationsResponse := Some response, isPolling := False\<rparr>,
       timers := (timers w)(h := None)\<rparr>"
  using assms by (simp add: pollInterval_resume_def setUi_def clearInterval_def)

lemma pollInterval_resume_failure:
  assumes "\<not> (r_state response = ''success'' \<and> has_creations (r_creations response))"
    and "r_state response = ''error'' \<or> str_truthy (r_err_code response)"
  shows "pollInterval_resume h (Inr response) w =
     w\<lparr>ui := (ui w)\<lparr>taskCreationsResponse := Some response, isPolling := False,
                     error := Some (str_or (r_err_code response) ''Video generation failed'')\<rparr>,
       timers := (timers w)(h := None)\<rparr>"
  using assms by (auto simp: pollInterval_resume_def setUi_def clearInterval_def)

text \<open>
  C6. When a status check answers with state \<open>success\<close> and at least one creation, the
  tracker shows that answer, its status is \<open>completed\<close>, the generated video is the first
  creation of the list, and the interval that polled is deregistered.
\<close>

theorem poll_success_completes:
  assumes "r_state response = ''success''" and "r_creations response = Some (c # cs)"
  shows "getCurrentStatus (ui (pollInterval_resume h (Inr response) w)) = ''completed''
       \<and> getGeneratedVideo (ui (pollInterval_resume h (Inr response) w)) = Some c
       \<and> taskCreationsResponse (ui (pollInterval_resume h (Inr response) w)) = Some response
       \<and> \<not> isPolling (ui (pollInterval_resume h (Inr response) w))
       \<and> pollInterval_fire h (pollInterval_resume h (Inr response) w) = None"
proof -
  have "has_creations (r_creations response)"
    using assms(2) by simp
  from pollInterval_resume_success[OF assms(1) this] assms show ?thesis
    by (simp add: getCurrentStatus_def getGeneratedVideo_def pollInterval_fire_def)
qed

theorem poll_success_completes_witness:
  "r_state success_response = ''success''
   \<and> r_creations success_response = Some [creation_a]
   \<and> pollInterval_fire 0 polling_world = Some (GetTaskCreations ''t1'')
   \<and> getCurrentStatus (ui (pollInterval_resume 0 (Inr success_response) polling_world)) = ''completed''
   \<and> map_option c_id (getGeneratedVideo (ui (pollInterval_resume 0 (Inr success_response) polling_world))) = Some ''a''
   \<and> pollInterval_fire 0 (pollInterval_resume 0 (Inr success_response) polling_world) = None"
proof -
  have a: "r_state success_response = ''success''"
    and b: "r_creations success_response = Some (creation_a # [])"
    by (simp_all add: success_response_def)
  have c: "pollInterval_fire 0 polling_world = Some (GetTaskCreations ''t1'')"
    by (simp add: pollInterval_fire_def polling_world_timers)
  have d: "c_id creation_a = ''a''"
    by (simp add: creation_a_def)
  show ?thesis
    using poll_success_completes [OF a b, of 0 polling_world] a b c d by simp
qed

text \<open>
  C7, as stated, fails when the answer has both state \<open>success\<close> with a creation and an
  error code: the success branch is tested first, the status is \<open>completed\<close> and no
  message is set.
\<close>

theorem poll_error_code_counterexample:
  "r_state both_response = ''success''
   \<and> r_err_code both_response = Some ''E1''
   \<and> getCurrentStatus (ui (pollInterval_resume 0 (Inr both_response) polling_world)) = ''completed''
   \<and> getCurrentStatus (ui (pollInterval_resume 0 (Inr both_response) polling_world)) \<noteq> ''failed''
   \<and> error (ui (pollInterval_resume 0 (Inr both_response) polling_world)) = None"
  by (simp add: both_response_def pollInterval_resume_def setUi_def clearInterval_def
      getCurrentStatus_def polling_world_ui typed_tracker_def initial_tracker_def)

text \<open>
  C7, amended. When a status check answers with state \<open>error\<close> or a non-empty error
  code, and the answer is not a success with at least one creation, the status is
  \<open>failed\<close>, the interval that polled is deregistered, and the message is the error code
  when it is non-empty and \<open>Video generation failed\<close> otherwise.
\<close>

theorem poll_error_fails:
  assumes "r_state response = ''error'' \<or> str_truthy (r_err_code response)"
    and "\<not> (r_state response = ''success'' \<and> has_creations (r_creations response))"
  shows "getCurrentStatus (ui (pollInterval_resume h (Inr response) w)) = ''failed''
       \<and> \<not> isPolling (ui (pollInterval_resume h (Inr response) w))
       \<and> pollInterval_fire h (pollInterval_resume h (Inr response) w) = None
       \<and> (str_truthy (r_err_code response) \<longrightarrow>
            Some (the (error (ui (pollInterval_resume h (Inr response) w)))) = r_err_code response
            \<and> error (ui (pollInterval_resume h (Inr response) w)) \<noteq> None)
       \<and> (\<not> str_truthy (r_err_code response) \<longrightarrow>
            error (ui (pollInterval_resume h (Inr response) w)) = Some ''Video generation failed'')"
  using pollInterval_resume_failure[OF assms(2,1), of h w] assms
  by (cases "r_err_code response")
     (auto simp: getCurrentStatus_def pollInterval_fire_def str_or_def)

theorem poll_error_fails_witness:
  "(r_state error_response = ''error'' \<and> str_truthy (r_err_code error_response))
   \<and> pollInterval_fire 0 polling_world = Some (GetTaskCreations ''t1'')
   \<and> getCurrentStatus (ui (pollInterval_resume 0 (Inr error_response) polling_world)) = ''failed''
   \<and> error (ui (pollInterval_resume 0 (Inr error_response) polling_world)) = Some ''E1''
   \<and> pollInterval_fire 0 (pollInterval_resume 0 (Inr error_response) polling_world) = None
   \<and> r_state (error_response\<lparr>r_err_code := None\<rparr>) = ''error''
   \<and> \<not> str_truthy (r_err_code (error_response\<lparr>r_err_code := None\<rparr>))
   \<and> error (ui (pollInterval_resume 0 (Inr (error_response\<lparr>r_err_code := None\<rparr>)) polling_world))
       = Some ''Video generation failed''"
proof -
  have a: "r_state error_response = ''error'' \<or> str_truthy (r_err_code error_response)"
    and b: "\<not> (r_state error_response = ''success'' \<and> has_creations (r_creations error_response))"
    and c: "r_err_code error_response = Some ''E1''" "r_state error_response = ''error''"
    by (simp_all add: error_response_def)
  have a': "r_state (error_response\<lparr>r_err_code := None\<rparr>) = ''error''
            \<or> str_truthy (r_err_code (error_response\<lparr>r_err_code := None\<rparr>))"
    and b': "\<not> (r_state (error_response\<lparr>r_err_code := None\<rparr>) = ''success''
              \<and> has_creations (r_creations (error_response\<lparr>r_err_code := None\<rparr>)))"
    by (simp_all add: error_response_def)
  have d: "pollInterval_fire 0 polling_world = Some (GetTaskCreations ''t1'')"
    by (simp add: pollInterval_fire_def polling_world_timers)
  have e: "error (ui (pollInterval_resume 0 (Inr error_response) polling_world)) = Some ''E1''"
    using poll_error_fails [OF a b, of 0 polling_world] c by auto
  show ?thesis
    using poll_error_fails [OF a b, of 0 polling_world]
      poll_error_fails [OF a' b', of 0 polling_world] c d e
    by simp
qed

lemma lookup_resume_ok:
  "handleTaskLookup_resume r t1 t2 (Inr response) w =
     w\<lparr>ui := (ui w)\<lparr>taskCreationsResponse := Some response,
         currentTaskResponse := Some (mockResponse (trim (taskIdInput r)) t1 t2 response),
         videoHistory := add_if_absent (trim (taskIdInput r))
            (mockResponse (trim (taskIdInput r)) t1 t2 response) (videoHistory (ui w)),
         taskIdInput := [], isLookingUp := False\<rparr>\<rparr>"
  by (simp add: handleTaskLookup_resume_def setUi_def Let_def)

lemma lookup_resume_failed:
  "handleTaskLookup_resume r t1 t2 (Inl err) w =
     w\<lparr>ui := (ui w)\<lparr>error := Some (lookupErrorMessage (trim (taskIdInput r)) err),
         isLookingUp := False\<rparr>\<rparr>"
  by (simp add: handleTaskLookup_resume_def setUi_def)

text \<open>
  C10. The entry that a successful lookup shows (and adds to the history when the task
  id is new) has the trimmed input as task id; its status is \<open>completed\<close> for the remote
  state \<open>success\<close>, \<open>failed\<close> for \<open>error\<close> and \<open>processing\<close> for every other state; its
  prompt is the payload of the answer when that is non-empty and \<open>Retrieved from task ID\<close>
  otherwise.
\<close>

theorem lookup_synthetic_job:
  "\<exists>job. currentTaskResponse (ui (handleTaskLookup_resume r t1 t2 (Inr response) w)) = Some job
     \<and> job = mockResponse (trim (taskIdInput r)) t1 t2 response
     \<and> v_task_id job = Some (trim (taskIdInput r))
     \<and> v_state job = r_state response
     \<and> (r_state response = ''success'' \<longrightarrow> v_status job = ''completed'')
     \<and> (r_state response = ''error'' \<longrightarrow> v_status job = ''failed'')
     \<and> (r_state response \<noteq> ''success'' \<and> r_state response \<noteq> ''error'' \<longrightarrow> v_status job = ''processing'')
     \<and> (str_truthy (r_payload response) \<longrightarrow> r_payload response = Some (v_prompt job))
     \<and> (\<not> str_truthy (r_payload response) \<longrightarrow> v_prompt job = ''Retrieved from task ID'')
     \<and> (\<not> list_ex (\<lambda>video. v_task_id video = Some (trim (taskIdInput r))) (videoHistory (ui w)) \<longrightarrow>
          videoHistory (ui (handleTaskLookup_resume r t1 t2 (Inr response) w))
            = job # videoHistory (ui w))"
proof -
  let ?job = "mockResponse (trim (taskIdInput r)) t1 t2 response"
  have "v_task_id ?job = Some (trim (taskIdInput r))" "v_state ?job = r_state response"
    "r_state response = ''success'' \<longrightarrow> v_status ?job = ''completed''"
    "r_state response = ''error'' \<longrightarrow> v_status ?job = ''failed''"
    "r_state response \<noteq> ''success'' \<and> r_state response \<noteq> ''error'' \<longrightarrow> v_status ?job = ''processing''"
    by (simp_all add: mockResponse_def)
  moreover have "str_truthy (r_payload response) \<longrightarrow> r_payload response = Some (v_prompt ?job)"
    "\<not> str_truthy (r_payload response) \<longrightarrow> v_prompt ?job = ''Retrieved from task ID''"
    by (cases "r_payload response"; simp add: mockResponse_def str_or_def)+
  ultimately show ?thesis
    by (simp add: lookup_resume_ok add_if_absent_def)
qed

theorem lookup_synthetic_job_witness:
  "(let job = the (currentTaskResponse (ui (handleTaskLookup_resume lookup_tracker ''d1'' ''d2''
                 (Inr success_response) lookup_world)))
    in v_task_id job = Some ''t7'' \<and> v_status job = ''completed''
       \<and> v_prompt job = ''Retrieved from task ID''
       \<and> videoHistory (ui (handleTaskLookup_resume lookup_tracker ''d1'' ''d2''
                 (Inr success_response) lookup_world)) = [job])
   \<and> (let job = the (currentTaskResponse (ui (handleTaskLookup_resume lookup_tracker ''d1'' ''d2''
                 (Inr error_response) lookup_world)))
    in v_status job = ''failed'')
   \<and> (let job = the (currentTaskResponse (ui (handleTaskLookup_resume lookup_tracker ''d1'' ''d2''
                 (Inr processing_response) lookup_world)))
    in v_status job = ''processing'' \<and> v_prompt job = ''p1'')"
proof -
  have t: "trim (taskIdInput lookup_tracker) = ''t7''"
    by (simp add: lookup_tracker_def trim_examples)
  have h: "videoHistory (ui lookup_world) = []"
    by (simp add: lookup_world_def tracker_defs)
  have s: "r_state success_response = ''success''" "\<not> str_truthy (r_payload success_response)"
    "r_state error_response = ''error''"
    "r_state processing_response = ''processing''" "r_payload processing_response = Some ''p1''"
    by (simp_all add: success_response_def error_response_def processing_response_def)
  show ?thesis
    using lookup_synthetic_job [of lookup_tracker "''d1''" "''d2''" success_response lookup_world]
      lookup_synthetic_job [of lookup_tracker "''d1''" "''d2''" error_response lookup_world]
      lookup_synthetic_job [of lookup_tracker "''d1''" "''d2''" processing_response lookup_world]
      t h s
    by (auto simp: Let_def)
qed

section \<open>Handles are never handed out twice\<close>

lemma setUi_simps [simp]:
  "ui (setUi f w) = f (ui w)" "timers (setUi f w) = timers w" "next_handle (setUi f w) = next_handle w"
  by (simp_all add: setUi_def)

lemma clearInterval_simps [simp]:
  "ui (clearInterval h w) = ui w" "timers (clearInterval h w) = (timers w)(h := None)"
  "next_handle (clearInterval h w) = next_handle w"
  by (simp_all add: clearInterval_def)

lemma pollTaskCreations_simps [simp]:
  "ui (pollTaskCreations r taskId w) = ui w"
  "timers (pollTaskCreations r taskId w) =
     (timers w)(next_handle w \<mapsto> PollInterval 5000 taskId,
                Suc (next_handle w) \<mapsto> PollTimeout 600000 (next_handle w) (taskCreationsResponse r))"
  "next_handle (pollTaskCreations r taskId w) = Suc (Suc (next_handle w))"
  by (simp_all add: pollTaskCreations_def register_def Let_def)

lemma extends_refl: "extends w w"
  by (simp add: extends_def)

lemma extends_setUi [simp]: "extends w (setUi f w')  \<longleftrightarrow> extends w w'"
  by (simp add: extends_def)

lemma extends_clear:
  "timers w' = timers w \<Longrightarrow> next_handle w' = next_handle w \<Longrightarrow> extends w (clearInterval h w')"
  by (simp add: extends_def)

lemma extends_poll:
  "timers w' = timers w \<Longrightarrow> next_handle w' = next_handle w \<Longrightarrow>
   extends w (pollTaskCreations r taskId w')"
  unfolding extends_def by (rule disjI2) (auto intro!: exI)

lemma extends_accept: "extends w (accept_response r response w)"
  by (simp add: accept_response_def Let_def extends_poll extends_refl)

lemma extends_step: "extends w (step w ev)"
proof (cases ev)
  case Submit
  then show ?thesis by (simp add: handleSubmit_start_def Let_def extends_refl)
next
  case (SubmitSettled r res)
  then show ?thesis
    by (cases res) (simp_all add: handleSubmit_resume_def extends_accept extends_refl)
next
  case ImageSubmit
  then show ?thesis
    by (simp add: handleImageSubmit_start_def handleImageSubmit_send_def Let_def extends_refl
        split: option.splits)
next
  case (ImageFileSettled r res)
  then show ?thesis
    by (cases res) (simp_all add: handleImageSubmit_file_def handleImageSubmit_send_def extends_refl)
next
  case (ImageSubmitSettled r res)
  then show ?thesis
    by (cases res) (simp_all add: handleImageSubmit_resume_def extends_accept extends_refl)
next
  case TaskLookup
  then show ?thesis by (simp add: handleTaskLookup_start_def Let_def extends_refl)
next
  case (TaskLookupSettled r t1 t2 res)
  then show ?thesis
    by (cases res) (simp_all add: handleTaskLookup_resume_def Let_def extends_refl)
next
  case (IntervalSettled h res)
  then show ?thesis
    by (cases res) (simp_all add: pollInterval_resume_def Let_def extends_refl extends_clear)
next
  case (TimeoutFires h)
  show ?thesis
  proof (cases "pollTimeout_fire h w")
    case None
    with TimeoutFires show ?thesis by (simp add: extends_refl)
  next
    case (Some w')
    then have "next_handle w' = next_handle w \<and> (\<forall>k. timers w' k = timers w k \<or> timers w' k = None)"
      by (auto simp: pollTimeout_fire_def Let_def split: option.splits timer.splits if_splits)
    with TimeoutFires Some show ?thesis by (simp add: extends_def)
  qed
qed (simp_all add: extends_refl handleRetry_def)

lemma spent_extends: "spent h w \<Longrightarrow> extends w w' \<Longrightarrow> spent h w'"
  unfolding spent_def extends_def by (elim disjE conjE exE) (metis, simp)

lemma spent_run: "spent h w \<Longrightarrow> spent h (run w evs)"
  unfolding run_def
  by (induction evs arbitrary: w) (simp_all add: spent_extends extends_step)

lemma wf_extends: "wf_timers w \<Longrightarrow> extends w w' \<Longrightarrow> wf_timers w'"
  unfolding wf_timers_def extends_def
  apply (elim disjE conjE exE)
   apply (metis option.distinct(1))
  apply (auto split: if_splits)
  done

lemma wf_initial: "wf_timers initial_world"
  by (simp add: wf_timers_def initial_world_def)

lemma wf_run: "wf_timers w \<Longrightarrow> wf_timers (run w evs)"
  unfolding run_def
  by (induction evs arbitrary: w) (simp_all add: wf_extends extends_step)

section \<open>Properties of submissions, timers and lookups\<close>

lemma submit_accepted:
  assumes "trim (prompt (ui w)) \<noteq> []" and "\<not> isGenerating (ui w)"
  shows "issued w Submit \<noteq> None"
    and "step w Submit = w\<lparr>ui := (ui w)\<lparr>isGenerating := True, error := None,
           currentTaskResponse := None, taskCreationsResponse := None, isPolling := False\<rparr>\<rparr>"
  using assms by (simp_all add: handleSubmit_start_def Let_def setUi_def)

lemma trim_a_cat: "trim ''a cat'' = ''a cat''"
  by (rule trim_examples)

lemma polling_world_prompt: "prompt (ui polling_world) = ''a cat''" "\<not> isGenerating (ui polling_world)"
  "isPolling (ui polling_world)" "videoHistory (ui polling_world) = [created ''t1'']"
  by (simp_all add: polling_world_ui typed_tracker_def initial_tracker_def)

lemma superseded_world_ui:
  "ui superseded_world = (ui polling_world)\<lparr>videoHistory := [created ''t2'', created ''t1''],
      currentTaskResponse := Some (created ''t2''), taskCreationsResponse := None,
      error := None, isPolling := True, isGenerating := False\<rparr>"
  by (simp add: superseded_world_def run_def handleSubmit_start_def handleSubmit_resume_def
      accept_response_def polling_world_prompt trim_a_cat Let_def created_def)

lemma superseded_world_timers:
  "timers superseded_world =
     [0 \<mapsto> PollInterval 5000 ''t1'', 1 \<mapsto> PollTimeout 600000 0 None,
      2 \<mapsto> PollInterval 5000 ''t2'', 3 \<mapsto> PollTimeout 600000 2 None]"
  "next_handle superseded_world = 4"
  by (simp_all add: superseded_world_def run_def handleSubmit_start_def handleSubmit_resume_def
      accept_response_def polling_world_prompt trim_a_cat Let_def created_def
      polling_world_timers polling_world_ui typed_tracker_def initial_tracker_def)

text \<open>
  C1, as stated, fails: while task \<open>t1\<close> is polled (its interval is registered and the
  polling flag is set), a text-to-video submission is accepted. It sends a request and
  clears the polling flag, and its answer makes the history one entry longer.
\<close>

theorem submit_while_polling_counterexample:
  "isPolling (ui polling_world)
   \<and> issued polling_world (IntervalFires 0) = Some (GetTaskCreations ''t1'')
   \<and> issued polling_world Submit \<noteq> None
   \<and> step polling_world Submit \<noteq> polling_world
   \<and> length (videoHistory (ui polling_world)) = 1
   \<and> length (videoHistory (ui (run polling_world
        [Submit, SubmitSettled (ui polling_world) (Inr (created ''t2''))]))) = 2"
proof -
  have a: "trim (prompt (ui polling_world)) \<noteq> []" "\<not> isGenerating (ui polling_world)"
    by (simp_all add: polling_world_prompt trim_a_cat)
  have "isPolling (ui polling_world)" "\<not> isPolling (ui (step polling_world Submit))"
    using submit_accepted(2)[OF a] by (simp_all add: polling_world_prompt)
  then have "step polling_world Submit \<noteq> polling_world"
    by metis
  moreover have "issued polling_world (IntervalFires 0) = Some (GetTaskCreations ''t1'')"
    by (simp add: pollInterval_fire_def polling_world_timers)
  moreover have "length (videoHistory (ui superseded_world)) = 2"
    by (simp add: superseded_world_ui)
  ultimately show ?thesis
    using submit_accepted(1)[OF a] by (simp add: polling_world_prompt superseded_world_def)
qed

text \<open>
  C1, amended. While an earlier text-to-video submission still awaits its creation
  response (\<open>isGenerating\<close>), or when the prompt is blank, a text-to-video submission is a
  no-op: no request is sent and nothing changes, neither the history nor the timers, so
  a poll cycle that is running goes on. A submission made while the tracker only polls
  is accepted.
\<close>

theorem submit_rejected_while_generating:
  "(isGenerating (ui w) \<or> trim (prompt (ui w)) = [] \<longrightarrow>
      issued w Submit = None \<and> step w Submit = w)
   \<and> (\<not> isGenerating (ui w) \<and> trim (prompt (ui w)) \<noteq> [] \<longrightarrow>
      issued w Submit \<noteq> None \<and> \<not> isPolling (ui (step w Submit))
      \<and> videoHistory (ui (step w Submit)) = videoHistory (ui w)
      \<and> timers (step w Submit) = timers w)"
  by (auto simp: handleSubmit_start_def Let_def)

theorem submit_rejected_while_generating_witness:
  "isGenerating (ui (step polling_world Submit))
   \<and> issued (step polling_world Submit) Submit = None
   \<and> step (step polling_world Submit) Submit = step polling_world Submit
   \<and> issued (step polling_world Submit) (IntervalFires 0) = Some (GetTaskCreations ''t1'')
   \<and> \<not> isGenerating (ui polling_world) \<and> trim (prompt (ui polling_world)) \<noteq> []
   \<and> issued polling_world Submit \<noteq> None
   \<and> trim (prompt (ui (step polling_world (SetPrompt nbsp)))) = []
   \<and> issued (step polling_world (SetPrompt nbsp)) Submit = None
   \<and> step (step polling_world (SetPrompt nbsp)) Submit = step polling_world (SetPrompt nbsp)"
proof -
  have a: "trim (prompt (ui polling_world)) \<noteq> []" "\<not> isGenerating (ui polling_world)"
    by (simp_all add: polling_world_prompt trim_a_cat)
  have g: "isGenerating (ui (step polling_world Submit))"
    and t: "timers (step polling_world Submit) = timers polling_world"
    using submit_accepted(2)[OF a] by simp_all
  have "issued (step polling_world Submit) (IntervalFires 0) = Some (GetTaskCreations ''t1'')"
    using t by (simp add: pollInterval_fire_def polling_world_timers)
  moreover have b: "trim (prompt (ui (step polling_world (SetPrompt nbsp)))) = []"
    by (simp add: trim_examples)
  moreover have "issued (step polling_world (SetPrompt nbsp)) Submit = None
      \<and> step (step polling_world (SetPrompt nbsp)) Submit = step polling_world (SetPrompt nbsp)"
    using submit_rejected_while_generating [of "step polling_world (SetPrompt nbsp)"] b
    by blast
  ultimately show ?thesis
    using submit_rejected_while_generating [of "step polling_world Submit"]
      submit_rejected_while_generating [of polling_world] g a
    by simp
qed

text \<open>
  C2, as stated, fails: after the second submission both callbacks of task \<open>t1\<close> are
  still registered beside those of task \<open>t2\<close>. The interval of \<open>t1\<close> goes on polling, and
  its answer replaces the shown response and clears the polling flag of the tracker that
  now follows \<open>t2\<close>; the timeout of \<open>t1\<close> sets the time-out message.
\<close>

theorem stale_callbacks_counterexample:
  "currentTaskResponse (ui superseded_world) = Some (created ''t2'')
   \<and> isPolling (ui superseded_world)
   \<and> timers superseded_world 1 = Some (PollTimeout 600000 0 None)
   \<and> issued superseded_world (IntervalFires 0) = Some (GetTaskCreations ''t1'')
   \<and> taskCreationsResponse (ui superseded_world) = None
   \<and> taskCreationsResponse (ui (step superseded_world (IntervalSettled 0 (Inr success_response))))
        = Some success_response
   \<and> \<not> isPolling (ui (step superseded_world (IntervalSettled 0 (Inr success_response))))
   \<and> error (ui superseded_world) = None
   \<and> error (ui (step superseded_world (TimeoutFires 1)))
        = Some ''Video generation timed out. Please try again.''"
proof -
  have "r_state success_response = ''success''" "has_creations (r_creations success_response)"
    by (simp_all add: success_response_def)
  then have "step superseded_world (IntervalSettled 0 (Inr success_response)) =
      superseded_world\<lparr>ui := (ui superseded_world)\<lparr>taskCreationsResponse := Some success_response,
         isPolling := False\<rparr>, timers := (timers superseded_world)(0 := None)\<rparr>"
    by (simp add: pollInterval_resume_success)
  moreover have "pollTimeout_fire 1 superseded_world =
      Some (superseded_world\<lparr>ui := (ui superseded_world)\<lparr>isPolling := False,
              error := Some ''Video generation timed out. Please try again.''\<rparr>,
         timers := (timers superseded_world)(1 := None, 0 := None)\<rparr>)"
    by (simp add: pollTimeout_fire_def superseded_world_timers no_creations_def Let_def
        setUi_def clearInterval_def)
  ultimately show ?thesis
    by (simp add: superseded_world_ui superseded_world_timers pollInterval_fire_def)
qed

text \<open>
  C2, amended. Initiating a new text or image submission or a lookup (the step that sends
  its request) clears the polling flag, the shown responses and the error of the tracker,
  and deregisters nothing: the start of a submission or of a lookup, and the answer to a
  lookup, leave the table of timers as it was, and the answer to a submission keeps every
  entry and adds the callbacks of the new job. So every interval and timeout callback of
  a superseded job stays registered and still runs: a remaining interval goes on sending
  its status request, and its answer is written to the tracker.
\<close>

theorem supersession_keeps_timers:
  "timers (step w Submit) = timers w
   \<and> timers (step w ImageSubmit) = timers w
   \<and> timers (step w (ImageFileSettled r fres)) = timers w
   \<and> timers (step w TaskLookup) = timers w
   \<and> timers (step w (TaskLookupSettled r t1 t2 looked)) = timers w
   \<and> (issued w Submit \<noteq> None \<longrightarrow> cleared (ui (step w Submit)))
   \<and> (issued w ImageSubmit \<noteq> None \<longrightarrow> cleared (ui (step w ImageSubmit)))
   \<and> (issued w (ImageFileSettled r fres) \<noteq> None \<longrightarrow>
        cleared (ui (step w (ImageFileSettled r fres))))
   \<and> (issued w TaskLookup \<noteq> None \<longrightarrow> cleared (ui (step w TaskLookup)))
   \<and> (timers (run initial_world evs) h = Some t \<longrightarrow>
        timers (step (run initial_world evs) (SubmitSettled r res)) h = Some t
        \<and> timers (step (run initial_world evs) (ImageSubmitSettled r res)) h = Some t)
   \<and> (str_truthy (v_task_id answer) \<longrightarrow>
        timers (step w (SubmitSettled r (Inr answer))) (next_handle w)
          = Some (PollInterval 5000 (the (v_task_id answer)))
        \<and> timers (step w (ImageSubmitSettled r (Inr answer))) (next_handle w)
          = Some (PollInterval 5000 (the (v_task_id answer))))
   \<and> (timers w h = Some (PollInterval d taskId) \<longrightarrow>
        issued w (IntervalFires h) = Some (GetTaskCreations taskId)
        \<and> taskCreationsResponse (ui (step w (IntervalSettled h (Inr response)))) = Some response)"
proof -
  have a: "timers (step w Submit) = timers w" "timers (step w TaskLookup) = timers w"
    by (simp_all add: handleSubmit_start_def handleTaskLookup_start_def Let_def)
  have b: "timers (step w ImageSubmit) = timers w"
    by (simp add: handleImageSubmit_start_def handleImageSubmit_send_def Let_def
        split: option.splits)
  have c: "timers (step w (ImageFileSettled r fres)) = timers w"
    by (cases fres) (simp_all add: handleImageSubmit_file_def handleImageSubmit_send_def)
  have d: "timers (step w (TaskLookupSettled r t1 t2 looked)) = timers w"
    by (cases looked) (simp_all add: handleTaskLookup_resume_def Let_def)
  have e: "issued w Submit \<noteq> None \<longrightarrow> cleared (ui (step w Submit))"
    "issued w TaskLookup \<noteq> None \<longrightarrow> cleared (ui (step w TaskLookup))"
    by (simp_all add: handleSubmit_start_def handleTaskLookup_start_def Let_def cleared_def)
  have e': "issued w ImageSubmit \<noteq> None \<longrightarrow> cleared (ui (step w ImageSubmit))"
    by (simp add: handleImageSubmit_start_def handleImageSubmit_send_def Let_def cleared_def
        split: option.splits)
  have e'': "issued w (ImageFileSettled r fres) \<noteq> None \<longrightarrow>
        cleared (ui (step w (ImageFileSettled r fres)))"
    by (cases fres)
       (simp_all add: handleImageSubmit_file_def handleImageSubmit_send_def cleared_def)
  have f: "timers (step w' (SubmitSettled r res)) h = Some t
         \<and> timers (step w' (ImageSubmitSettled r res)) h = Some t"
    if "w' = run initial_world evs" and "timers w' h = Some t" for w'
  proof -
    have "wf_timers w'"
      using that(1) by (simp add: wf_run wf_initial)
    then have "h < next_handle w'"
      using that(2) by (auto simp: wf_timers_def)
    then show ?thesis
      using that(2)
      by (cases res)
         (simp_all add: handleSubmit_resume_def handleImageSubmit_resume_def accept_response_def
           Let_def)
  qed
  have n: "timers (step w (SubmitSettled r (Inr answer))) (next_handle w)
          = Some (PollInterval 5000 (the (v_task_id answer)))
        \<and> timers (step w (ImageSubmitSettled r (Inr answer))) (next_handle w)
          = Some (PollInterval 5000 (the (v_task_id answer)))"
    if "str_truthy (v_task_id answer)"
    using that
    by (simp add: handleSubmit_resume_def handleImageSubmit_resume_def accept_response_def Let_def)
  have g: "issued w (IntervalFires h) = Some (GetTaskCreations taskId)
        \<and> taskCreationsResponse (ui (step w (IntervalSettled h (Inr response)))) = Some response"
    if "timers w h = Some (PollInterval d taskId)"
    using that by (simp add: pollInterval_fire_def pollInterval_resume_def Let_def)
  show ?thesis
    using a b c d e e' e'' f n g by blast
qed

theorem supersession_keeps_timers_witness:
  "issued polling_world Submit \<noteq> None
   \<and> timers polling_world 0 = Some (PollInterval 5000 ''t1'')
   \<and> timers (step polling_world Submit) 0 = Some (PollInterval 5000 ''t1'')
   \<and> timers (step polling_world Submit) 1 = Some (PollTimeout 600000 0 None)
   \<and> cleared (ui (step polling_world Submit))
   \<and> timers (step (step polling_world Submit)
        (SubmitSettled (ui polling_world) (Inr (created ''t2'')))) 0 = Some (PollInterval 5000 ''t1'')
   \<and> timers (step (step polling_world Submit)
        (SubmitSettled (ui polling_world) (Inr (created ''t2'')))) 2 = Some (PollInterval 5000 ''t2'')
   \<and> issued (step polling_world Submit) (IntervalFires 0) = Some (GetTaskCreations ''t1'')
   \<and> taskCreationsResponse (ui (step (step polling_world Submit)
        (IntervalSettled 0 (Inr success_response)))) = Some success_response
   \<and> issued (step polling_world (SetImageUrl ''http://x/a.png'')) ImageSubmit \<noteq> None
   \<and> cleared (ui (step (step polling_world (SetImageUrl ''http://x/a.png'')) ImageSubmit))
   \<and> timers (step (step polling_world (SetImageUrl ''http://x/a.png'')) ImageSubmit) 0
        = Some (PollInterval 5000 ''t1'')
   \<and> issued (step polling_world (SetTaskIdInput ''t1'')) TaskLookup \<noteq> None
   \<and> cleared (ui (step (step polling_world (SetTaskIdInput ''t1'')) TaskLookup))
   \<and> timers (step (step polling_world (SetTaskIdInput ''t1'')) TaskLookup) 0
        = Some (PollInterval 5000 ''t1'')"
proof -
  let ?evs = "[SetPrompt ''a cat'', Submit, SubmitSettled typed_tracker (Inr (created ''t1'')), Submit]"
  let ?wi = "step polling_world (SetImageUrl ''http://x/a.png'')"
  let ?wl = "step polling_world (SetTaskIdInput ''t1'')"
  have r: "step polling_world Submit = run initial_world ?evs"
    by (simp add: polling_world_def run_def)
  have a: "issued polling_world Submit \<noteq> None"
    by (rule submit_accepted(1)) (simp_all add: polling_world_prompt trim_a_cat)
  have t: "timers (step polling_world Submit) = timers polling_world"
    using supersession_keeps_timers [where w = polling_world] by simp
  have nh: "next_handle (step polling_world Submit) = 2"
    by (simp add: handleSubmit_start_def Let_def polling_world_timers)
  have t0: "timers (run initial_world ?evs) 0 = Some (PollInterval 5000 ''t1'')"
    using t r by (simp add: polling_world_timers)
  have k: "timers (step (run initial_world ?evs)
        (SubmitSettled (ui polling_world) (Inr (created ''t2'')))) 0 = Some (PollInterval 5000 ''t1'')"
    using supersession_keeps_timers [where evs = ?evs and r = "ui polling_world" and h = 0
        and t = "PollInterval 5000 ''t1''" and res = "Inr (created ''t2'')"] t0
    by blast
  have k2: "timers (step (step polling_world Submit)
        (SubmitSettled (ui polling_world) (Inr (created ''t2'')))) 2 = Some (PollInterval 5000 ''t2'')"
    using supersession_keeps_timers [where w = "step polling_world Submit"
        and r = "ui polling_world" and answer = "created ''t2''"] nh
    by (simp add: created_def)
  have i: "issued (run initial_world ?evs) (IntervalFires 0) = Some (GetTaskCreations ''t1'')
      \<and> taskCreationsResponse (ui (step (run initial_world ?evs)
          (IntervalSettled 0 (Inr success_response)))) = Some success_response"
    using supersession_keeps_timers [where w = "run initial_world ?evs" and h = 0 and d = 5000
        and taskId = "''t1''" and response = success_response] t0
    by blast
  have p: "cleared (ui (step polling_world Submit))"
    using supersession_keeps_timers [where w = polling_world] a by blast
  have im: "issued ?wi ImageSubmit \<noteq> None"
    by (simp add: handleImageSubmit_start_def handleImageSubmit_send_def Let_def
        polling_world_ui typed_tracker_def initial_tracker_def trim_examples)
  have ic: "cleared (ui (step ?wi ImageSubmit))" and it: "timers (step ?wi ImageSubmit) = timers ?wi"
    using supersession_keeps_timers [where w = ?wi] im by blast+
  have lm: "issued ?wl TaskLookup \<noteq> None"
    by (simp add: handleTaskLookup_start_def Let_def polling_world_ui typed_tracker_def
        initial_tracker_def trim_examples)
  have lc: "cleared (ui (step ?wl TaskLookup))" and lt: "timers (step ?wl TaskLookup) = timers ?wl"
    using supersession_keeps_timers [where w = ?wl] lm by blast+
  have "timers (step ?wi ImageSubmit) 0 = Some (PollInterval 5000 ''t1'')"
    "timers (step ?wl TaskLookup) 0 = Some (PollInterval 5000 ''t1'')"
    unfolding it lt by (simp_all add: polling_world_timers)
  then show ?thesis
    using a t k k2 i p im ic lm lc unfolding r [symmetric] by (simp add: polling_world_timers)
qed

lemma failed_world_eq:
  "failed_world = polling_world\<lparr>ui := (ui polling_world)\<lparr>taskCreationsResponse := Some error_response,
       isPolling := False, error := Some ''E1''\<rparr>,
     timers := (timers polling_world)(0 := None)\<rparr>"
proof -
  have "\<not> (r_state error_response = ''success'' \<and> has_creations (r_creations error_response))"
    "r_state error_response = ''error'' \<or> str_truthy (r_err_code error_response)"
    "str_or (r_err_code error_response) ''Video generation failed'' = ''E1''"
    by (simp_all add: error_response_def str_or_def)
  then show ?thesis
    by (simp add: failed_world_def pollInterval_resume_failure)
qed

lemma completed_world_eq:
  "completed_world = polling_world\<lparr>ui := (ui polling_world)\<lparr>taskCreationsResponse := Some success_response,
       isPolling := False\<rparr>,
     timers := (timers polling_world)(0 := None)\<rparr>"
proof -
  have "r_state success_response = ''success''" "has_creations (r_creations success_response)"
    by (simp_all add: success_response_def)
  then show ?thesis
    by (simp add: completed_world_def pollInterval_resume_success)
qed

lemma timeout_fires:
  assumes "timers w h = Some (PollTimeout d p cap)"
  shows "pollTimeout_fire h w =
     Some (w\<lparr>ui := (ui w)\<lparr>isPolling := False,
                error := (if no_creations cap
                          then Some ''Video generation timed out. Please try again.''
                          else error (ui w))\<rparr>,
             timers := (timers w)(h := None, p := None)\<rparr>)"
  using assms by (simp add: pollTimeout_fire_def Let_def setUi_def clearInterval_def)

text \<open>
  C3, as stated, fails: a status check that reaches a terminal state clears the interval
  only. The timeout stays registered and fires at its deadline; after the error \<open>E1\<close> it
  replaces the message by the time-out message, and after a success it sets the time-out
  message as well, since the callback tests the response of the render it was created in.
\<close>

theorem timeout_after_terminal_counterexample:
  "getCurrentStatus (ui failed_world) = ''failed''
   \<and> error (ui failed_world) = Some ''E1''
   \<and> timers failed_world 1 = Some (PollTimeout 600000 0 None)
   \<and> error (ui (step failed_world (TimeoutFires 1)))
        = Some ''Video generation timed out. Please try again.''
   \<and> getCurrentStatus (ui completed_world) = ''completed''
   \<and> error (ui completed_world) = None
   \<and> timers completed_world 1 = Some (PollTimeout 600000 0 None)
   \<and> error (ui (step completed_world (TimeoutFires 1)))
        = Some ''Video generation timed out. Please try again.''"
proof -
  have f: "timers failed_world 1 = Some (PollTimeout 600000 0 None)"
    and c: "timers completed_world 1 = Some (PollTimeout 600000 0 None)"
    by (simp_all add: failed_world_eq completed_world_eq polling_world_timers)
  have "getCurrentStatus (ui failed_world) = ''failed''" "error (ui failed_world) = Some ''E1''"
    "getCurrentStatus (ui completed_world) = ''completed''" "error (ui completed_world) = None"
    by (simp_all add: failed_world_eq completed_world_eq getCurrentStatus_def polling_world_ui
        typed_tracker_def initial_tracker_def error_response_def success_response_def)
  moreover have "error (ui (step failed_world (TimeoutFires 1)))
        = Some ''Video generation timed out. Please try again.''"
    using timeout_fires [OF f] by (simp add: no_creations_def)
  moreover have "error (ui (step completed_world (TimeoutFires 1)))
        = Some ''Video generation timed out. Please try again.''"
    using timeout_fires [OF c] by (simp add: no_creations_def)
  ultimately show ?thesis
    using f c by simp
qed

text \<open>
  C3, amended. For every polling run: polling starts by registering the interval with a
  delay of 5 seconds and the timeout with a delay of 600 seconds; when the timeout fires
  it clears the polling flag and deregisters the interval, and no further status request
  is sent for that interval afterwards, whatever happens next; a status check that
  reaches a terminal state (a success with a creation, or an error) deregisters the
  interval, which never polls again, and a status check, terminal or not, leaves the
  pending timeout registered.
\<close>

theorem timeout_stops_polling:
  "(str_truthy (v_task_id response) \<longrightarrow>
      timers (accept_response r response w) (next_handle w)
        = Some (PollInterval 5000 (the (v_task_id response)))
      \<and> timers (accept_response r response w) (Suc (next_handle w))
        = Some (PollTimeout 600000 (next_handle w) (taskCreationsResponse r)))
   \<and> (timers (run initial_world evs0) h = Some (PollTimeout d p cap) \<longrightarrow>
      (\<exists>w'. pollTimeout_fire h (run initial_world evs0) = Some w'
          \<and> \<not> isPolling (ui w')
          \<and> (\<forall>evs. issued (run w' evs) (IntervalFires p) = None)))
   \<and> (timers w k = Some (PollTimeout d p cap) \<and> timers w h' = Some (PollInterval d' taskId) \<longrightarrow>
      timers (step w (IntervalSettled h' res)) k = Some (PollTimeout d p cap))
   \<and> (timers (run initial_world evs0) h' = Some (PollInterval d' taskId)
      \<and> (r_state answer = ''success'' \<and> has_creations (r_creations answer)
         \<or> r_state answer = ''error'' \<or> str_truthy (r_err_code answer)) \<longrightarrow>
      timers (step (run initial_world evs0) (IntervalSettled h' (Inr answer))) h' = None
      \<and> (\<forall>evs. issued (run (step (run initial_world evs0) (IntervalSettled h' (Inr answer))) evs)
                  (IntervalFires h') = None))"
proof -
  have a: "timers (accept_response r response w) (next_handle w)
        = Some (PollInterval 5000 (the (v_task_id response)))
      \<and> timers (accept_response r response w) (Suc (next_handle w))
        = Some (PollTimeout 600000 (next_handle w) (taskCreationsResponse r))"
    if "str_truthy (v_task_id response)"
    using that by (simp add: accept_response_def Let_def)
  have b: "\<exists>w'. pollTimeout_fire h w0 = Some w' \<and> \<not> isPolling (ui w')
          \<and> (\<forall>evs. issued (run w' evs) (IntervalFires p) = None)"
    if w0: "w0 = run initial_world evs0" and t: "timers w0 h = Some (PollTimeout d p cap)" for w0
  proof -
    let ?w' = "w0\<lparr>ui := (ui w0)\<lparr>isPolling := False,
                error := (if no_creations cap
                          then Some ''Video generation timed out. Please try again.''
                          else error (ui w0))\<rparr>,
             timers := (timers w0)(h := None, p := None)\<rparr>"
    have "wf_timers w0"
      using w0 by (simp add: wf_run wf_initial)
    then have "p < h" "h < next_handle w0"
      using t by (auto simp: wf_timers_def)
    then have "spent p ?w'"
      by (simp add: spent_def)
    then have "spent p (run ?w' evs)" for evs
      by (rule spent_run)
    then have "issued (run ?w' evs) (IntervalFires p) = None" for evs
      by (simp add: spent_def pollInterval_fire_def)
    then show ?thesis
      using timeout_fires [OF t] by simp
  qed
  have c: "timers (step w (IntervalSettled h' res)) k = Some (PollTimeout d p cap)"
    if "timers w k = Some (PollTimeout d p cap)" "timers w h' = Some (PollInterval d' taskId)"
  proof -
    have "k \<noteq> h'" using that by auto
    then show ?thesis
      using that(1) by (cases res) (simp_all add: pollInterval_resume_def Let_def)
  qed
  have e: "timers (step w0 (IntervalSettled h' (Inr answer))) h' = None
      \<and> (\<forall>evs. issued (run (step w0 (IntervalSettled h' (Inr answer))) evs) (IntervalFires h') = None)"
    if w0: "w0 = run initial_world evs0" and t: "timers w0 h' = Some (PollInterval d' taskId)"
      and terminal: "r_state answer = ''success'' \<and> has_creations (r_creations answer)
         \<or> r_state answer = ''error'' \<or> str_truthy (r_err_code answer)" for w0
  proof -
    let ?w' = "step w0 (IntervalSettled h' (Inr answer))"
    have "wf_timers w0"
      using w0 by (simp add: wf_run wf_initial)
    then have "h' < next_handle w0"
      using t by (auto simp: wf_timers_def)
    moreover have "timers ?w' h' = None" "next_handle ?w' = next_handle w0"
      using terminal by (auto simp: pollInterval_resume_def Let_def)
    ultimately have "spent h' ?w'"
      by (simp add: spent_def)
    then have "spent h' (run ?w' evs)" for evs
      by (rule spent_run)
    then have "issued (run ?w' evs) (IntervalFires h') = None" for evs
      by (simp add: spent_def pollInterval_fire_def)
    then show ?thesis
      using \<open>timers ?w' h' = None\<close> by simp
  qed
  show ?thesis
    using a b c e by blast
qed

theorem timeout_stops_polling_witness:
  "timers polling_world 0 = Some (PollInterval 5000 ''t1'')
   \<and> timers polling_world 1 = Some (PollTimeout 600000 0 None)
   \<and> issued polling_world (IntervalFires 0) = Some (GetTaskCreations ''t1'')
   \<and> pollTimeout_fire 1 polling_world \<noteq> None
   \<and> \<not> isPolling (ui (step polling_world (TimeoutFires 1)))
   \<and> issued (run (step polling_world (TimeoutFires 1))
        [IntervalSettled 0 (Inr processing_response), Submit]) (IntervalFires 0) = None
   \<and> timers (step polling_world (IntervalSettled 0 (Inr error_response))) 1
        = Some (PollTimeout 600000 0 None)
   \<and> r_state error_response = ''error''
   \<and> timers (step polling_world (IntervalSettled 0 (Inr error_response))) 0 = None
   \<and> issued (run (step polling_world (IntervalSettled 0 (Inr error_response)))
        [Retry, Submit]) (IntervalFires 0) = None
   \<and> r_state success_response = ''success'' \<and> has_creations (r_creations success_response)
   \<and> timers (step polling_world (IntervalSettled 0 (Inr success_response))) 0 = None
   \<and> timers (step polling_world (IntervalSettled 0 (Inr success_response))) 1
        = Some (PollTimeout 600000 0 None)"
proof -
  let ?evs0 = "[SetPrompt ''a cat'', Submit, SubmitSettled typed_tracker (Inr (created ''t1''))]"
  have r: "polling_world = run initial_world ?evs0"
    by (simp add: polling_world_def)
  have t: "timers polling_world 0 = Some (PollInterval 5000 ''t1'')"
    "timers polling_world 1 = Some (PollTimeout 600000 0 None)"
    by (simp_all add: polling_world_timers)
  obtain w' where f: "pollTimeout_fire 1 polling_world = Some w'" and p: "\<not> isPolling (ui w')"
    and n: "\<And>evs. issued (run w' evs) (IntervalFires 0) = None"
    using timeout_stops_polling [where ?evs0.0 = ?evs0 and h = 1 and d = 600000 and p = 0 and cap = None]
      t(2) unfolding r [symmetric] by blast
  have s: "step polling_world (TimeoutFires 1) = w'"
    using f by simp
  have k: "timers (step polling_world (IntervalSettled 0 (Inr error_response))) 1
        = Some (PollTimeout 600000 0 None)"
    using timeout_stops_polling [where w = polling_world and k = 1 and d = 600000 and p = 0
        and cap = None and h' = 0 and d' = 5000 and taskId = "''t1''" and res = "Inr error_response"] t
    by blast
  have i: "issued polling_world (IntervalFires 0) = Some (GetTaskCreations ''t1'')"
    by (simp add: pollInterval_fire_def t)
  have k': "timers (step polling_world (IntervalSettled 0 (Inr success_response))) 1
        = Some (PollTimeout 600000 0 None)"
    using timeout_stops_polling [where w = polling_world and k = 1 and d = 600000 and p = 0
        and cap = None and h' = 0 and d' = 5000 and taskId = "''t1''" and res = "Inr success_response"] t
    by blast
  have te: "r_state error_response = ''error''"
    and ts: "r_state success_response = ''success'' \<and> has_creations (r_creations success_response)"
    by (simp_all add: error_response_def success_response_def)
  have ce: "timers (step polling_world (IntervalSettled 0 (Inr error_response))) 0 = None
      \<and> (\<forall>evs. issued (run (step polling_world (IntervalSettled 0 (Inr error_response))) evs)
            (IntervalFires 0) = None)"
    using timeout_stops_polling [where ?evs0.0 = ?evs0 and h' = 0 and d' = 5000
        and taskId = "''t1''" and answer = error_response] t(1) te
    unfolding r [symmetric] by blast
  have cs: "timers (step polling_world (IntervalSettled 0 (Inr success_response))) 0 = None"
    using timeout_stops_polling [where ?evs0.0 = ?evs0 and h' = 0 and d' = 5000
        and taskId = "''t1''" and answer = success_response] t(1) ts
    unfolding r [symmetric] by blast
  show ?thesis
    using t f p n k k' i te ts ce cs unfolding s by simp
qed

lemma lookupErrorMessage_nonempty:
  assumes "\<forall>m. err = Error m \<longrightarrow> m \<noteq> []"
  shows "lookupErrorMessage taskId err \<noteq> []"
  using assms by (cases err) (simp_all add: lookupErrorMessage_def notFoundMessage_def)

lemma add_if_absent_count:
  "length (filter (\<lambda>video. v_task_id video = Some taskId)
      (add_if_absent taskId (mockResponse taskId t1 t2 response) prev))
   = (if list_ex (\<lambda>video. v_task_id video = Some taskId) prev
      then length (filter (\<lambda>video. v_task_id video = Some taskId) prev) else 1)"
proof (cases "list_ex (\<lambda>video. v_task_id video = Some taskId) prev")
  case True
  then show ?thesis by (simp add: add_if_absent_def)
next
  case False
  then have "filter (\<lambda>video. v_task_id video = Some taskId) prev = []"
    by (simp add: list_ex_iff filter_empty_conv)
  with False show ?thesis
    by (simp add: add_if_absent_def mockResponse_def)
qed

lemma add_if_absent_twice:
  "add_if_absent taskId (mockResponse taskId t3 t4 response')
     (add_if_absent taskId (mockResponse taskId t1 t2 response) prev)
   = add_if_absent taskId (mockResponse taskId t1 t2 response) prev"
  by (simp add: add_if_absent_def mockResponse_def)

text \<open>
  C8. Starting a lookup sends one status request for the trimmed input and leaves the
  history as it is. When the request succeeds, the synthetic entry is put in front of
  the history if no entry has that task id, and the history is left unchanged if one
  has; so the id then occurs exactly once when it was new, and a second successful lookup
  of the same id changes nothing. When the request fails, the history is unchanged and
  the error message is set: the not-found text for a message that mentions 404, and
  never an empty text for a non-empty message.
\<close>

theorem lookup_history:
  "(issued w TaskLookup \<noteq> None \<longrightarrow>
      issued w TaskLookup = Some (GetTaskCreations (trim (taskIdInput (ui w)))))
   \<and> videoHistory (ui (step w TaskLookup)) = videoHistory (ui w)
   \<and> (\<not> list_ex (\<lambda>video. v_task_id video = Some (trim (taskIdInput r))) (videoHistory (ui w)) \<longrightarrow>
      videoHistory (ui (step w (TaskLookupSettled r t1 t2 (Inr response))))
        = mockResponse (trim (taskIdInput r)) t1 t2 response # videoHistory (ui w)
      \<and> length (filter (\<lambda>video. v_task_id video = Some (trim (taskIdInput r)))
           (videoHistory (ui (step w (TaskLookupSettled r t1 t2 (Inr response)))))) = 1)
   \<and> (list_ex (\<lambda>video. v_task_id video = Some (trim (taskIdInput r))) (videoHistory (ui w)) \<longrightarrow>
      videoHistory (ui (step w (TaskLookupSettled r t1 t2 (Inr response)))) = videoHistory (ui w))
   \<and> (trim (taskIdInput r') = trim (taskIdInput r) \<longrightarrow>
      videoHistory (ui (step (step w (TaskLookupSettled r t1 t2 (Inr response)))
                          (TaskLookupSettled r' t3 t4 (Inr response'))))
        = videoHistory (ui (step w (TaskLookupSettled r t1 t2 (Inr response)))))
   \<and> videoHistory (ui (step w (TaskLookupSettled r t1 t2 (Inl err)))) = videoHistory (ui w)
   \<and> error (ui (step w (TaskLookupSettled r t1 t2 (Inl err))))
        = Some (lookupErrorMessage (trim (taskIdInput r)) err)
   \<and> (str_includes m ''404'' \<longrightarrow>
        lookupErrorMessage (trim (taskIdInput r)) (Error m) = notFoundMessage (trim (taskIdInput r)))
   \<and> ((\<forall>m. err = Error m \<longrightarrow> m \<noteq> []) \<longrightarrow> lookupErrorMessage (trim (taskIdInput r)) err \<noteq> [])"
proof -
  let ?P = "\<lambda>video. v_task_id video = Some (trim (taskIdInput r))"
  have a: "issued w TaskLookup \<noteq> None \<longrightarrow>
      issued w TaskLookup = Some (GetTaskCreations (trim (taskIdInput (ui w))))"
    "videoHistory (ui (step w TaskLookup)) = videoHistory (ui w)"
    by (simp_all add: handleTaskLookup_start_def Let_def)
  have h: "videoHistory (ui (step w (TaskLookupSettled r t1 t2 (Inr response))))
      = add_if_absent (trim (taskIdInput r)) (mockResponse (trim (taskIdInput r)) t1 t2 response)
          (videoHistory (ui w))" for w r t1 t2 response
    by (simp add: lookup_resume_ok)
  have b: "\<not> list_ex ?P (videoHistory (ui w)) \<longrightarrow>
      videoHistory (ui (step w (TaskLookupSettled r t1 t2 (Inr response))))
        = mockResponse (trim (taskIdInput r)) t1 t2 response # videoHistory (ui w)
      \<and> length (filter ?P (videoHistory (ui (step w (TaskLookupSettled r t1 t2 (Inr response)))))) = 1"
    unfolding h add_if_absent_count by (simp add: add_if_absent_def)
  have c: "list_ex ?P (videoHistory (ui w)) \<longrightarrow>
      videoHistory (ui (step w (TaskLookupSettled r t1 t2 (Inr response)))) = videoHistory (ui w)"
    unfolding h by (simp add: add_if_absent_def)
  have d: "trim (taskIdInput r') = trim (taskIdInput r) \<longrightarrow>
      videoHistory (ui (step (step w (TaskLookupSettled r t1 t2 (Inr response)))
                          (TaskLookupSettled r' t3 t4 (Inr response'))))
        = videoHistory (ui (step w (TaskLookupSettled r t1 t2 (Inr response))))"
    unfolding h by (simp add: add_if_absent_twice)
  have e: "videoHistory (ui (step w (TaskLookupSettled r t1 t2 (Inl err)))) = videoHistory (ui w)"
    "error (ui (step w (TaskLookupSettled r t1 t2 (Inl err))))
        = Some (lookupErrorMessage (trim (taskIdInput r)) err)"
    by (simp_all add: lookup_resume_failed)
  have f: "str_includes m ''404'' \<longrightarrow>
        lookupErrorMessage (trim (taskIdInput r)) (Error m) = notFoundMessage (trim (taskIdInput r))"
    by (simp add: lookupErrorMessage_def)
  have g: "(\<forall>m. err = Error m \<longrightarrow> m \<noteq> []) \<longrightarrow> lookupErrorMessage (trim (taskIdInput r)) err \<noteq> []"
    by (simp add: lookupErrorMessage_nonempty)
  show ?thesis
    using a b c d e f g by blast
qed

theorem lookup_history_witness:
  "issued (step initial_world (SetTaskIdInput '' t7 '')) TaskLookup = Some (GetTaskCreations ''t7'')
   \<and> videoHistory (ui lookup_world) = []
   \<and> videoHistory (ui (step lookup_world (TaskLookupSettled lookup_tracker ''d1'' ''d2'' (Inr success_response))))
       = [mockResponse ''t7'' ''d1'' ''d2'' success_response]
   \<and> videoHistory (ui (step (step lookup_world
          (TaskLookupSettled lookup_tracker ''d1'' ''d2'' (Inr success_response)))
          (TaskLookupSettled lookup_tracker ''d3'' ''d4'' (Inr processing_response))))
       = [mockResponse ''t7'' ''d1'' ''d2'' success_response]
   \<and> list_ex (\<lambda>video. v_task_id video = Some (trim (taskIdInput t1_lookup_tracker)))
        (videoHistory (ui polling_world))
   \<and> videoHistory (ui (step polling_world
          (TaskLookupSettled t1_lookup_tracker ''d1'' ''d2'' (Inr success_response))))
       = [created ''t1'']
   \<and> videoHistory (ui (step lookup_world
          (TaskLookupSettled lookup_tracker ''d1'' ''d2'' (Inl (Error ''HTTP 404: Not Found''))))) = []
   \<and> error (ui (step lookup_world
          (TaskLookupSettled lookup_tracker ''d1'' ''d2'' (Inl (Error ''HTTP 404: Not Found'')))))
       = Some (notFoundMessage ''t7'')
   \<and> notFoundMessage ''t7'' \<noteq> []
   \<and> issued (step initial_world (SetTaskIdInput padded_t7)) TaskLookup
       = Some (GetTaskCreations ''t7'')
   \<and> videoHistory (ui (step (step lookup_world
          (TaskLookupSettled lookup_tracker ''d1'' ''d2'' (Inr success_response)))
          (TaskLookupSettled nbsp_lookup_tracker ''d3'' ''d4'' (Inr success_response))))
       = [mockResponse ''t7'' ''d1'' ''d2'' success_response]"
proof -
  let ?ok = "TaskLookupSettled lookup_tracker ''d1'' ''d2'' (Inr success_response)"
  let ?err = "Error ''HTTP 404: Not Found''"
  have t: "trim (taskIdInput lookup_tracker) = ''t7''" "trim '' t7 '' = ''t7''"
    "trim (taskIdInput t1_lookup_tracker) = ''t1''"
    by (simp_all add: lookup_tracker_def t1_lookup_tracker_def trim_examples)
  have i: "issued (step initial_world (SetTaskIdInput '' t7 '')) TaskLookup \<noteq> None"
    by (simp add: handleTaskLookup_start_def Let_def t initial_world_def initial_tracker_def)
  have h: "videoHistory (ui lookup_world) = []"
    by (simp add: lookup_world_def tracker_defs)
  have p: "list_ex (\<lambda>video. v_task_id video = Some (trim (taskIdInput t1_lookup_tracker)))
        (videoHistory (ui polling_world))"
    by (simp add: t polling_world_prompt created_def)
  have n: "str_includes ''HTTP 404: Not Found'' ''404''"
    by code_simp
  have e: "\<forall>m. ?err = Error m \<longrightarrow> m \<noteq> []"
    by simp
  have 1: "issued (step initial_world (SetTaskIdInput '' t7 '')) TaskLookup = Some (GetTaskCreations ''t7'')"
    using lookup_history [where w = "step initial_world (SetTaskIdInput '' t7 '')"] i
    by (simp add: t)
  have 2: "videoHistory (ui (step lookup_world ?ok)) = [mockResponse ''t7'' ''d1'' ''d2'' success_response]"
    using lookup_history [where w = lookup_world and r = lookup_tracker and ?t1.0 = "''d1''"
        and ?t2.0 = "''d2''" and response = success_response] h
    by (simp add: t)
  have 3: "videoHistory (ui (step (step lookup_world ?ok)
          (TaskLookupSettled lookup_tracker ''d3'' ''d4'' (Inr processing_response))))
       = videoHistory (ui (step lookup_world ?ok))"
    using lookup_history [where w = lookup_world and r = lookup_tracker and r' = lookup_tracker
        and ?t1.0 = "''d1''" and ?t2.0 = "''d2''" and response = success_response
        and ?t3.0 = "''d3''" and ?t4.0 = "''d4''" and response' = processing_response]
    by blast
  have 4: "videoHistory (ui (step polling_world
          (TaskLookupSettled t1_lookup_tracker ''d1'' ''d2'' (Inr success_response))))
       = videoHistory (ui polling_world)"
    using lookup_history [where w = polling_world and r = t1_lookup_tracker and ?t1.0 = "''d1''"
        and ?t2.0 = "''d2''" and response = success_response] p
    by blast
  have 5: "videoHistory (ui (step lookup_world (TaskLookupSettled lookup_tracker ''d1'' ''d2'' (Inl ?err))))
       = videoHistory (ui lookup_world)
     \<and> error (ui (step lookup_world (TaskLookupSettled lookup_tracker ''d1'' ''d2'' (Inl ?err))))
       = Some (lookupErrorMessage ''t7'' ?err)
     \<and> lookupErrorMessage ''t7'' ?err = notFoundMessage ''t7''
     \<and> lookupErrorMessage ''t7'' ?err \<noteq> []"
    using lookup_history [where w = lookup_world and r = lookup_tracker and ?t1.0 = "''d1''"
        and ?t2.0 = "''d2''" and err = ?err and m = "''HTTP 404: Not Found''"] n e
    unfolding t by blast
  from 5 have 6: "notFoundMessage ''t7'' \<noteq> []"
    by metis
  have tn: "trim (taskIdInput nbsp_lookup_tracker) = trim (taskIdInput lookup_tracker)"
    by (simp add: nbsp_lookup_tracker_def t trim_examples)
  have "issued (step initial_world (SetTaskIdInput padded_t7)) TaskLookup \<noteq> None"
    by (simp add: handleTaskLookup_start_def Let_def trim_examples initial_world_def
        initial_tracker_def)
  then have 7: "issued (step initial_world (SetTaskIdInput padded_t7)) TaskLookup
       = Some (GetTaskCreations ''t7'')"
    using lookup_history [where w = "step initial_world (SetTaskIdInput padded_t7)"]
    by (simp add: trim_examples)
  have 8: "videoHistory (ui (step (step lookup_world ?ok)
          (TaskLookupSettled nbsp_lookup_tracker ''d3'' ''d4'' (Inr success_response))))
       = videoHistory (ui (step lookup_world ?ok))"
    using lookup_history [where w = lookup_world and r = lookup_tracker and r' = nbsp_lookup_tracker
        and ?t1.0 = "''d1''" and ?t2.0 = "''d2''" and response = success_response
        and ?t3.0 = "''d3''" and ?t4.0 = "''d4''" and response' = success_response] tn
    by blast
  show ?thesis
    using 1 2 3 4 5 6 7 8 h p by (simp add: polling_world_prompt)
qed

end
